theory Spec2Isabelle
  imports Complex_Main
begin

section \<open>Python values used by qr\_builder\<close>

subsection \<open>Exceptions\<close>

text \<open>
  Every \<^verbatim>\<open>raise\<close> of the sources is a value. The handlers of the HTTP surface only
  tell \<^verbatim>\<open>ValueError\<close> from every other exception, so the exception classes that are not
  (subclasses of) \<^verbatim>\<open>ValueError\<close> and are not raised by the sources themselves are
  collected under \<open>OtherException\<close>, with the class name and the message.
\<close>

datatype py_error =
    ValueError string
  | FileNotFoundError string
  | ImportError string
  | OtherException string string

text \<open>\<^verbatim>\<open>str(exc)\<close> for an exception built from one message argument.\<close>

fun exc_str :: "py_error \<Rightarrow> string" where
  "exc_str (ValueError msg) = msg"
| "exc_str (FileNotFoundError msg) = msg"
| "exc_str (ImportError msg) = msg"
| "exc_str (OtherException cls msg) = msg"

text \<open>Does \<^verbatim>\<open>except ValueError\<close> catch the exception?\<close>

fun is_value_error :: "py_error \<Rightarrow> bool" where
  "is_value_error (ValueError msg) = True"
| "is_value_error e = False"

subsection \<open>Strings\<close>

text \<open>
  A Python \<^verbatim>\<open>str\<close> is a sequence of code points. The model covers the code points
  U+0000 .. U+00FF: a \<^typ>\<open>char\<close> is the code point with that number, and
  \<^term>\<open>length\<close> is \<^verbatim>\<open>len\<close>. On this range \<^verbatim>\<open>str.isspace\<close> holds of
  9-13, 28-32, 133 and 160, and \<^verbatim>\<open>str.lower\<close> adds 32 to A-Z and to
  U+00C0 .. U+00DE except the multiplication sign U+00D7.
\<close>

definition py_isspace :: "char \<Rightarrow> bool" where
  "py_isspace c =
     (of_char c \<in> {9, 10, 11, 12, 13, 28, 29, 30, 31, 32, 133, 160 :: nat})"

text \<open>\<^verbatim>\<open>s.strip()\<close>: whitespace removed from both ends.\<close>

definition strip :: "string \<Rightarrow> string" where
  "strip s = rev (dropWhile py_isspace (rev (dropWhile py_isspace s)))"

definition lower_char :: "char \<Rightarrow> char" where
  "lower_char c =
     (let n = of_char c :: nat
      in if (65 \<le> n \<and> n \<le> 90) \<or> (192 \<le> n \<and> n \<le> 222 \<and> n \<noteq> 215)
         then char_of (n + 32) else c)"

text \<open>\<^verbatim>\<open>s.lower()\<close>.\<close>

definition lower :: "string \<Rightarrow> string" where
  "lower s = map lower_char s"

section \<open>qr\_builder.core: validation\<close>

text \<open>
  \<^verbatim>\<open>
  MAX_DATA_LENGTH = 4296  # Maximum characters for QR code
  MAX_QR_SIZE = 4000  # Maximum QR image size in pixels
  MIN_QR_SIZE = 21  # Minimum QR image size in pixels
  VALID_POSITIONS = ("center", "top-left", "top-right", "bottom-left", "bottom-right")
  \<close>
\<close>

definition MAX_DATA_LENGTH :: int where
  "MAX_DATA_LENGTH = 4296"

definition MAX_QR_SIZE :: int where
  "MAX_QR_SIZE = 4000"

definition MIN_QR_SIZE :: int where
  "MIN_QR_SIZE = 21"

definition VALID_POSITIONS :: "string list" where
  "VALID_POSITIONS =
     [''center'', ''top-left'', ''top-right'', ''bottom-left'', ''bottom-right'']"

text \<open>
  \<^verbatim>\<open>
  def validate_data(data: str) -> None:
      if not data or not data.strip():
          raise ValueError("Data cannot be empty.")
      if len(data) > MAX_DATA_LENGTH:
          raise ValueError(f"Data exceeds maximum length of {MAX_DATA_LENGTH} characters.")
  \<close>
  The f-string is written out with the constant's digits.
\<close>

definition validate_data :: "string \<Rightarrow> py_error + unit" where
  "validate_data data =
     (if data = [] \<or> strip data = [] then Inl (ValueError ''Data cannot be empty.'')
      else if int (length data) > MAX_DATA_LENGTH
        then Inl (ValueError ''Data exceeds maximum length of 4296 characters.'')
      else Inr ())"

text \<open>
  \<^verbatim>\<open>
  def validate_size(size: int) -> None:
      if not MIN_QR_SIZE <= size <= MAX_QR_SIZE:
          raise ValueError(f"Size must be between {MIN_QR_SIZE} and {MAX_QR_SIZE} pixels.")
  \<close>
\<close>

definition validate_size :: "int \<Rightarrow> py_error + unit" where
  "validate_size sz =
     (if \<not> (MIN_QR_SIZE \<le> sz \<and> sz \<le> MAX_QR_SIZE)
        then Inl (ValueError ''Size must be between 21 and 4000 pixels.'')
      else Inr ())"

section \<open>qr\_builder.core: the position calculator\<close>

text \<open>
  \<^verbatim>\<open>
  def calculate_position(bg_w, bg_h, qr_size, position, margin):
      position = position.lower()
      if position == "center":
          return (bg_w - qr_size) // 2, (bg_h - qr_size) // 2
      if position == "bottom-right":
          return bg_w - qr_size - margin, bg_h - qr_size - margin
      if position == "bottom-left":
          return margin, bg_h - qr_size - margin
      if position == "top-right":
          return bg_w - qr_size - margin, margin
      if position == "top-left":
          return margin, margin
      raise ValueError(
          f"Unsupported position '{position}'. "
          "Use one of: center, top-left, top-right, bottom-left, bottom-right."
      )
  \<close>
  Python's \<^verbatim>\<open>//\<close> on integers is floor division, which is \<^term>\<open>(div)\<close> on
  \<^typ>\<open>int\<close>.
\<close>

definition unsupported_position :: "string \<Rightarrow> string" where
  "unsupported_position p =
     ''Unsupported position '' @ [CHR 0x27] @ p @ [CHR 0x27] @
     ''. Use one of: center, top-left, top-right, bottom-left, bottom-right.''"

definition calculate_position ::
  "int \<Rightarrow> int \<Rightarrow> int \<Rightarrow> string \<Rightarrow> int \<Rightarrow> py_error + (int \<times> int)" where
  "calculate_position bg_w bg_h qr_size position margin =
     (let position = lower position in
      if position = ''center''
        then Inr ((bg_w - qr_size) div 2, (bg_h - qr_size) div 2)
      else if position = ''bottom-right''
        then Inr (bg_w - qr_size - margin, bg_h - qr_size - margin)
      else if position = ''bottom-left''
        then Inr (margin, bg_h - qr_size - margin)
      else if position = ''top-right''
        then Inr (bg_w - qr_size - margin, margin)
      else if position = ''top-left''
        then Inr (margin, margin)
      else Inl (ValueError (unsupported_position position)))"

section \<open>Python floats\<close>

text \<open>
  A \<^verbatim>\<open>float\<close> is an IEEE 754 binary64 value. \<open>Finite m e\<close> is the number
  \<open>m * 2 ^ e\<close> (every finite binary64 value has this form, with \<open>\<bar>m\<bar> < 2 ^ 53\<close>); the
  sign of zero is not kept, since no operation used here tells the two zeros apart.
  Arithmetic rounds the exact result to 53 significant bits, ties to even. The exponent
  is not bounded: the products formed by the sources are of an image width or a QR size
  and a scale that has passed its range check, far from overflow and underflow.
\<close>

datatype pyfloat = Finite int int | PosInf | NegInf | NaN

text \<open>The number of low bits to drop so that 53 remain.\<close>

function excess_bits :: "nat \<Rightarrow> nat" where
  "excess_bits a = (if a < 2 ^ 53 then 0 else Suc (excess_bits (a div 2)))"
  by pat_completeness auto
termination
  by (relation "measure id") auto

declare excess_bits.simps [simp del]

definition round_to_double :: "int \<Rightarrow> int \<Rightarrow> pyfloat" where
  "round_to_double m e =
     (let a = nat \<bar>m\<bar>; k = excess_bits a; q = a div 2 ^ k; r = a mod 2 ^ k;
          q' = (if 2 * r > 2 ^ k \<or> (2 * r = 2 ^ k \<and> odd q) then q + 1 else q)
      in Finite (sgn m * int q') (e + int k))"

text \<open>\<^verbatim>\<open>float(n)\<close>, the conversion Python applies to the integer operand of a mixed product.\<close>

definition float_of_int :: "int \<Rightarrow> pyfloat" where
  "float_of_int n = round_to_double n 0"

definition float_sign :: "pyfloat \<Rightarrow> int" where
  "float_sign x = (case x of Finite m e \<Rightarrow> sgn m | PosInf \<Rightarrow> 1 | NegInf \<Rightarrow> - 1 | NaN \<Rightarrow> 0)"

definition float_mul :: "pyfloat \<Rightarrow> pyfloat \<Rightarrow> pyfloat" where
  "float_mul x y =
     (case (x, y) of
        (Finite m1 e1, Finite m2 e2) \<Rightarrow> round_to_double (m1 * m2) (e1 + e2)
      | _ \<Rightarrow> if x = NaN \<or> y = NaN \<or> float_sign x * float_sign y = 0 then NaN
             else if float_sign x * float_sign y > 0 then PosInf else NegInf)"

text \<open>Comparison is exact, also between an \<^verbatim>\<open>int\<close> and a \<^verbatim>\<open>float\<close>; NaN compares false.\<close>

definition fin_le :: "int \<Rightarrow> int \<Rightarrow> int \<Rightarrow> int \<Rightarrow> bool" where
  "fin_le m1 e1 m2 e2 =
     (let e = min e1 e2 in m1 * 2 ^ nat (e1 - e) \<le> m2 * 2 ^ nat (e2 - e))"

definition fin_lt :: "int \<Rightarrow> int \<Rightarrow> int \<Rightarrow> int \<Rightarrow> bool" where
  "fin_lt m1 e1 m2 e2 =
     (let e = min e1 e2 in m1 * 2 ^ nat (e1 - e) < m2 * 2 ^ nat (e2 - e))"

fun float_le :: "pyfloat \<Rightarrow> pyfloat \<Rightarrow> bool" where
  "float_le NaN y = False"
| "float_le x NaN = False"
| "float_le NegInf y = True"
| "float_le x PosInf = True"
| "float_le PosInf y = False"
| "float_le x NegInf = False"
| "float_le (Finite m1 e1) (Finite m2 e2) = fin_le m1 e1 m2 e2"

fun float_lt :: "pyfloat \<Rightarrow> pyfloat \<Rightarrow> bool" where
  "float_lt NaN y = False"
| "float_lt x NaN = False"
| "float_lt PosInf y = False"
| "float_lt x NegInf = False"
| "float_lt NegInf y = True"
| "float_lt x PosInf = True"
| "float_lt (Finite m1 e1) (Finite m2 e2) = fin_lt m1 e1 m2 e2"

text \<open>
  \<^verbatim>\<open>int(x)\<close> truncates towards zero; it raises \<^verbatim>\<open>ValueError\<close> on NaN and
  \<^verbatim>\<open>OverflowError\<close> on an infinity.
\<close>

definition py_int :: "pyfloat \<Rightarrow> py_error + int" where
  "py_int x =
     (case x of
        Finite m e \<Rightarrow>
          Inr (if 0 \<le> e then m * 2 ^ nat e else sgn m * (\<bar>m\<bar> div 2 ^ nat (- e)))
      | NaN \<Rightarrow> Inl (ValueError ''cannot convert float NaN to integer'')
      | _ \<Rightarrow> Inl (OtherException ''OverflowError'' ''cannot convert float infinity to integer''))"

text \<open>
  The float literals of the sources and of the spec's scenarios, as
  \<^verbatim>\<open>float.as_integer_ratio\<close> gives them: the binary64 value nearest the decimal.
\<close>

definition float_0_05 :: pyfloat where
  "float_0_05 = Finite 3602879701896397 (- 56)"

definition float_0_1 :: pyfloat where
  "float_0_1 = Finite 3602879701896397 (- 55)"

definition float_0_4 :: pyfloat where
  "float_0_4 = Finite 3602879701896397 (- 53)"

definition float_0_41 :: pyfloat where
  "float_0_41 = Finite 7385903388887613 (- 54)"

definition float_0_25 :: pyfloat where
  "float_0_25 = Finite 1 (- 2)"

definition float_0_3 :: pyfloat where
  "float_0_3 = Finite 5404319552844595 (- 54)"

section \<open>Images and the external libraries\<close>

text \<open>
  The imaging library (Pillow) and the QR codec (qrcode) are outside the repository. An
  image is kept by what the sources read and decide: its size, its pixel mode and the
  record of what has been drawn onto it, each layer with its extent and its top-left
  coordinate. The operations follow the library's documented contract:
  \<^verbatim>\<open>convert(mode)\<close> changes the mode only, \<^verbatim>\<open>resize((w, h))\<close> the size only,
  \<^verbatim>\<open>paste(im, (x, y), mask)\<close> draws \<open>im\<close> with its top-left corner at \<open>(x, y)\<close> and
  clips what falls outside the canvas without an error, and
  \<^verbatim>\<open>ImageDraw.rectangle([p0, p1], fill)\<close> draws a filled box.
\<close>

datatype layer =
    Pasted int int int int
  | Rectangle int int int int string

record image =
  im_width :: int
  im_height :: int
  im_mode :: string
  im_layers :: "layer list"

definition pil_convert :: "string \<Rightarrow> image \<Rightarrow> image" where
  "pil_convert mode img = img\<lparr>im_mode := mode\<rparr>"

definition pil_resize :: "int \<times> int \<Rightarrow> image \<Rightarrow> image" where
  "pil_resize wh img = img\<lparr>im_width := fst wh, im_height := snd wh\<rparr>"

definition pil_paste :: "image \<Rightarrow> image \<Rightarrow> int \<times> int \<Rightarrow> image" where
  "pil_paste bg im xy =
     bg\<lparr>im_layers := im_layers bg @ [Pasted (im_width im) (im_height im) (fst xy) (snd xy)]\<rparr>"

definition pil_rectangle :: "image \<Rightarrow> int \<times> int \<Rightarrow> int \<times> int \<Rightarrow> string \<Rightarrow> image" where
  "pil_rectangle img p0 p1 fill =
     img\<lparr>im_layers := im_layers img @ [Rectangle (fst p0) (snd p0) (fst p1) (snd p1) fill]\<rparr>"

text \<open>
  The codec call of \<open>generate_qr\<close>,
  \<^verbatim>\<open>
  qr = qrcode.QRCode(version=None, error_correction=qrcode.constants.ERROR_CORRECT_H,
                     box_size=10, border=border)
  qr.add_data(data)
  qr.make(fit=True)
  img = qr.make_image(fill_color=fill_color, back_color=back_color)
  \<close>
  is a parameter: from the data, the border and the two colours it gives an image, of
  the size and mode the codec chooses, or raises (the codec's \<^verbatim>\<open>DataOverflowError\<close>
  when the data does not fit the largest symbol, \<^verbatim>\<open>ValueError\<close> on an unknown colour).
\<close>

type_synonym codec = "string \<Rightarrow> int \<Rightarrow> string \<Rightarrow> string \<Rightarrow> py_error + image"

text \<open>
  A file holds an image or bytes that are not one. \<^verbatim>\<open>Image.open\<close> raises
  \<^verbatim>\<open>UnidentifiedImageError\<close> (an \<^verbatim>\<open>OSError\<close>) on the latter.
\<close>

datatype stored = ImageFile image | OtherFile

definition image_open :: "stored \<Rightarrow> py_error + image" where
  "image_open f =
     (case f of
        ImageFile img \<Rightarrow> Inr img
      | OtherFile \<Rightarrow> Inl (OtherException ''UnidentifiedImageError'' ''cannot identify image file''))"

type_synonym filesystem = "string \<Rightarrow> stored option"

text \<open>
  What the functions of the core module take from outside: the codec, and whether
  \<^verbatim>\<open>Image.save(path)\<close> fails for a path and an image (an unknown extension, a mode the
  format cannot hold, an I/O error).
\<close>

record env =
  qr_codec :: codec
  save_error :: "string \<Rightarrow> image \<Rightarrow> py_error option"

section \<open>qr\_builder.core: rendering and compositing\<close>

text \<open>
  \<^verbatim>\<open>
  def generate_qr(data, qr_size=500, border=4, fill_color="black", back_color="white"):
      validate_data(data)
      validate_size(qr_size)
      qr = qrcode.QRCode(...)
      qr.add_data(data)
      qr.make(fit=True)
      img = qr.make_image(fill_color=fill_color, back_color=back_color).convert("RGBA")
      img = img.resize((qr_size, qr_size), Image.LANCZOS)
      return img
  \<close>
\<close>

definition generate_qr ::
  "codec \<Rightarrow> string \<Rightarrow> int \<Rightarrow> int \<Rightarrow> string \<Rightarrow> string \<Rightarrow> py_error + image" where
  "generate_qr codec data qr_size border fill_color back_color =
     (case validate_data data of Inl e \<Rightarrow> Inl e | Inr u \<Rightarrow>
      case validate_size qr_size of Inl e \<Rightarrow> Inl e | Inr u \<Rightarrow>
      case codec data border fill_color back_color of Inl e \<Rightarrow> Inl e | Inr img \<Rightarrow>
        Inr (pil_resize (qr_size, qr_size) (pil_convert ''RGBA'' img)))"

text \<open>
  \<^verbatim>\<open>
  def embed_qr_in_image(background_image_path, data, output_path, qr_scale=0.3,
                        position="center", margin=20, fill_color="black", back_color="white"):
      bg_path = Path(background_image_path)
      if not bg_path.exists():
          raise FileNotFoundError(f"Background image not found: {bg_path}")
      bg = Image.open(bg_path).convert("RGBA")
      bg_w, bg_h = bg.size
      if not (0 < qr_scale <= 1):
          raise ValueError("qr_scale must be between 0 and 1.")
      qr_size = int(bg_w * qr_scale)
      qr_img = generate_qr(data, qr_size=qr_size, fill_color=fill_color, back_color=back_color)
      x, y = calculate_position(bg_w, bg_h, qr_size, position, margin)
      bg.paste(qr_img, (x, y), qr_img)
      output_path = Path(output_path)
      bg.save(output_path)
      return output_path
  \<close>
  The function reads and writes files: it takes the file system and returns it, changed
  only by a successful save.
\<close>

definition embed_qr_in_image ::
  "env \<Rightarrow> filesystem \<Rightarrow> string \<Rightarrow> string \<Rightarrow> string \<Rightarrow> pyfloat \<Rightarrow> string \<Rightarrow> int \<Rightarrow> string \<Rightarrow> string
     \<Rightarrow> (py_error + string) \<times> filesystem" where
  "embed_qr_in_image ev fs background_image_path data output_path qr_scale position margin
       fill_color back_color =
     (case fs background_image_path of
        None \<Rightarrow>
          (Inl (FileNotFoundError (''Background image not found: '' @ background_image_path)), fs)
      | Some f \<Rightarrow>
     (case image_open f of Inl e \<Rightarrow> (Inl e, fs) | Inr opened \<Rightarrow>
      let bg = pil_convert ''RGBA'' opened; bg_w = im_width bg; bg_h = im_height bg in
      if \<not> (float_lt (Finite 0 0) qr_scale \<and> float_le qr_scale (Finite 1 0))
        then (Inl (ValueError ''qr_scale must be between 0 and 1.''), fs)
      else
     (case py_int (float_mul (float_of_int bg_w) qr_scale) of
        Inl e \<Rightarrow> (Inl e, fs) | Inr qr_size \<Rightarrow>
     (case generate_qr (qr_codec ev) data qr_size 4 fill_color back_color of
        Inl e \<Rightarrow> (Inl e, fs) | Inr qr_img \<Rightarrow>
     (case calculate_position bg_w bg_h qr_size position margin of
        Inl e \<Rightarrow> (Inl e, fs) | Inr xy \<Rightarrow>
      let bg = pil_paste bg qr_img xy in
     (case save_error ev output_path bg of
        Some e \<Rightarrow> (Inl e, fs)
      | None \<Rightarrow> (Inr output_path, fs(output_path \<mapsto> ImageFile bg))))))))"

text \<open>
  \<^verbatim>\<open>
  def generate_qr_with_logo(data, logo_path, output_path, size=500, logo_scale=0.3,
                            fill_color="black", back_color="white"):
      logo_path = Path(logo_path)
      if not logo_path.exists():
          raise FileNotFoundError(f"Logo image not found: {logo_path}")
      if not (0.1 <= logo_scale <= 0.4):
          raise ValueError("logo_scale should be between 0.1 and 0.4 for reliable scanning.")
      qr_img = generate_qr(data, qr_size=size, fill_color=fill_color, back_color=back_color)
      logo = Image.open(logo_path).convert("RGBA")
      logo_size = int(size * logo_scale)
      logo = logo.resize((logo_size, logo_size), Image.LANCZOS)
      pos_x = (size - logo_size) // 2
      pos_y = (size - logo_size) // 2
      box_padding = 10
      box_size = logo_size + box_padding * 2
      box_pos = ((size - box_size) // 2, (size - box_size) // 2)
      draw = ImageDraw.Draw(qr_img)
      draw.rectangle([box_pos, (box_pos[0] + box_size, box_pos[1] + box_size)], fill=back_color)
      qr_img.paste(logo, (pos_x, pos_y), logo)
      output_path = Path(output_path)
      qr_img.save(output_path)
      return output_path
  \<close>
\<close>

definition generate_qr_with_logo ::
  "env \<Rightarrow> filesystem \<Rightarrow> string \<Rightarrow> string \<Rightarrow> string \<Rightarrow> int \<Rightarrow> pyfloat \<Rightarrow> string \<Rightarrow> string
     \<Rightarrow> (py_error + string) \<times> filesystem" where
  "generate_qr_with_logo ev fs data logo_path output_path sz logo_scale fill_color back_color =
     (case fs logo_path of
        None \<Rightarrow> (Inl (FileNotFoundError (''Logo image not found: '' @ logo_path)), fs)
      | Some f \<Rightarrow>
      if \<not> (float_le float_0_1 logo_scale \<and> float_le logo_scale float_0_4)
        then (Inl (ValueError ''logo_scale should be between 0.1 and 0.4 for reliable scanning.''),
              fs)
      else
     (case generate_qr (qr_codec ev) data sz 4 fill_color back_color of
        Inl e \<Rightarrow> (Inl e, fs) | Inr qr_img \<Rightarrow>
     (case image_open f of Inl e \<Rightarrow> (Inl e, fs) | Inr opened \<Rightarrow>
      let logo = pil_convert ''RGBA'' opened in
     (case py_int (float_mul (float_of_int sz) logo_scale) of
        Inl e \<Rightarrow> (Inl e, fs) | Inr logo_size \<Rightarrow>
      let logo = pil_resize (logo_size, logo_size) logo;
          pos_x = (sz - logo_size) div 2;
          pos_y = (sz - logo_size) div 2;
          box_padding = 10;
          box_size = logo_size + box_padding * 2;
          box_pos = ((sz - box_size) div 2, (sz - box_size) div 2);
          qr_img = pil_rectangle qr_img box_pos
                     (fst box_pos + box_size, snd box_pos + box_size) back_color;
          qr_img = pil_paste qr_img logo (pos_x, pos_y) in
     (case save_error ev output_path qr_img of
        Some e \<Rightarrow> (Inl e, fs)
      | None \<Rightarrow> (Inr output_path, fs(output_path \<mapsto> ImageFile qr_img)))))))"

section \<open>qr\_builder.api: the HTTP handlers\<close>

text \<open>
  An upload carries the client's file name, which may be absent, and its bytes. A handler
  returns a streaming response with a body and a media type, or raises
  \<^verbatim>\<open>HTTPException(status_code, detail)\<close>, which the framework turns into the
  response with that status.
\<close>

record upload =
  filename :: "string option"
  content :: stored

datatype body =
    PngImage image
  | ZipArchive "(string \<times> image) list"

datatype response =
    StreamingResponse body string
  | HTTPException int string

text \<open>
  \<^verbatim>\<open>
  @app.post("/qr", tags=["basic"])
  async def create_qr(data, size=500, fill_color="black", back_color="white"):
      try:
          img = generate_qr(data=data, qr_size=size, fill_color=fill_color,
                            back_color=back_color)
      except Exception as exc:
          logger.exception("Failed to generate QR.")
          raise HTTPException(status_code=400, detail=str(exc))
      buf = io.BytesIO()
      img.save(buf, format="PNG")
      buf.seek(0)
      return StreamingResponse(buf, media_type="image/png")
  \<close>
\<close>

definition create_qr :: "codec \<Rightarrow> string \<Rightarrow> int \<Rightarrow> string \<Rightarrow> string \<Rightarrow> response" where
  "create_qr codec data sz fill_color back_color =
     (case generate_qr codec data sz 4 fill_color back_color of
        Inl exc \<Rightarrow> HTTPException 400 (exc_str exc)
      | Inr img \<Rightarrow> StreamingResponse (PngImage img) ''image/png'')"

text \<open>
  The \<^verbatim>\<open>try\<close> block of \<^verbatim>\<open>embed_qr\<close> (the route \<^verbatim>\<open>/embed\<close>):
  \<^verbatim>\<open>
  raw = await background.read()
  tmp_buf = io.BytesIO(raw)
  bg = Image.open(tmp_buf).convert("RGBA")
  bg_w, bg_h = bg.size
  if not (0 < scale <= 1):
      raise ValueError("scale must be between 0 and 1.")
  qr_size = int(bg_w * scale)
  qr_img = generate_qr(data=data, qr_size=qr_size, fill_color=fill_color,
                       back_color=back_color)
  x, y = calculate_position(bg_w, bg_h, qr_size, position, margin)
  bg.paste(qr_img, (x, y), qr_img)
  out_buf = io.BytesIO()
  bg.save(out_buf, format="PNG")
  out_buf.seek(0)
  \<close>
  The result is the composited image that is encoded into the buffer.
\<close>

definition embed_qr_try ::
  "codec \<Rightarrow> upload \<Rightarrow> string \<Rightarrow> pyfloat \<Rightarrow> string \<Rightarrow> int \<Rightarrow> string \<Rightarrow> string
     \<Rightarrow> py_error + image" where
  "embed_qr_try codec background data scale position margin fill_color back_color =
     (case image_open (content background) of Inl e \<Rightarrow> Inl e | Inr opened \<Rightarrow>
      let bg = pil_convert ''RGBA'' opened; bg_w = im_width bg; bg_h = im_height bg in
      if \<not> (float_lt (Finite 0 0) scale \<and> float_le scale (Finite 1 0))
        then Inl (ValueError ''scale must be between 0 and 1.'')
      else
     (case py_int (float_mul (float_of_int bg_w) scale) of
        Inl e \<Rightarrow> Inl e | Inr qr_size \<Rightarrow>
     (case generate_qr codec data qr_size 4 fill_color back_color of
        Inl e \<Rightarrow> Inl e | Inr qr_img \<Rightarrow>
     (case calculate_position bg_w bg_h qr_size position margin of
        Inl e \<Rightarrow> Inl e | Inr xy \<Rightarrow>
      Inr (pil_paste bg qr_img xy)))))"

text \<open>
  \<^verbatim>\<open>
  @app.post("/embed", tags=["embed"])
  async def embed_qr(background, data, scale=0.3, position="center", margin=20,
                     fill_color="black", back_color="white"):
      try:
          ...
      except ValueError as ve:
          logger.warning("Bad request for /embed: %s", ve)
          raise HTTPException(status_code=400, detail=str(ve))
      except Exception:
          logger.exception("Failed to embed QR.")
          raise HTTPException(status_code=500, detail="Internal server error")
      return StreamingResponse(out_buf, media_type="image/png")
  \<close>
\<close>

definition embed_qr ::
  "codec \<Rightarrow> upload \<Rightarrow> string \<Rightarrow> pyfloat \<Rightarrow> string \<Rightarrow> int \<Rightarrow> string \<Rightarrow> string \<Rightarrow> response" where
  "embed_qr codec background data scale position margin fill_color back_color =
     (case embed_qr_try codec background data scale position margin fill_color back_color of
        Inl e \<Rightarrow>
          if is_value_error e then HTTPException 400 (exc_str e)
          else HTTPException 500 ''Internal server error''
      | Inr out_img \<Rightarrow> StreamingResponse (PngImage out_img) ''image/png'')"

text \<open>
  The naming of an archive entry in \<^verbatim>\<open>batch_embed_qr\<close>:
  \<^verbatim>\<open>
  name = file.filename or "image.png"
  if "." in name:
      base, _ = name.rsplit(".", 1)
      out_name = f"{base}_qr.png"
  else:
      out_name = f"{name}_qr.png"
  \<close>
  \<^verbatim>\<open>name.rsplit(".", 1)\<close> splits at the last dot.
\<close>

definition rsplit_dot_base :: "string \<Rightarrow> string" where
  "rsplit_dot_base name = rev (tl (dropWhile (\<lambda>c. c \<noteq> CHR ''.'') (rev name)))"

definition batch_out_name :: "string option \<Rightarrow> string" where
  "batch_out_name fname =
     (let name = (case fname of None \<Rightarrow> ''image.png''
                  | Some n \<Rightarrow> if n = [] then ''image.png'' else n) in
      if CHR ''.'' \<in> set name then rsplit_dot_base name @ ''_qr.png''
      else name @ ''_qr.png'')"

text \<open>
  The body of the loop of \<^verbatim>\<open>batch_embed_qr\<close> for one upload: the same steps as in
  \<^verbatim>\<open>embed_qr\<close>, then the entry's name; the result is what
  \<^verbatim>\<open>zf.writestr(out_name, out_img_buf.getvalue())\<close> adds to the archive.
\<close>

definition batch_embed_item ::
  "codec \<Rightarrow> string \<Rightarrow> pyfloat \<Rightarrow> string \<Rightarrow> int \<Rightarrow> string \<Rightarrow> string \<Rightarrow> upload
     \<Rightarrow> py_error + (string \<times> image)" where
  "batch_embed_item codec data scale position margin fill_color back_color upl =
     (case image_open (content upl) of Inl e \<Rightarrow> Inl e | Inr opened \<Rightarrow>
      let bg = pil_convert ''RGBA'' opened; bg_w = im_width bg; bg_h = im_height bg in
      if \<not> (float_lt (Finite 0 0) scale \<and> float_le scale (Finite 1 0))
        then Inl (ValueError ''scale must be between 0 and 1.'')
      else
     (case py_int (float_mul (float_of_int bg_w) scale) of
        Inl e \<Rightarrow> Inl e | Inr qr_size \<Rightarrow>
     (case generate_qr codec data qr_size 4 fill_color back_color of
        Inl e \<Rightarrow> Inl e | Inr qr_img \<Rightarrow>
     (case calculate_position bg_w bg_h qr_size position margin of
        Inl e \<Rightarrow> Inl e | Inr xy \<Rightarrow>
      Inr (batch_out_name (filename upl), pil_paste bg qr_img xy)))))"

text \<open>
  \<^verbatim>\<open>for file in backgrounds: ...\<close> with the archive written so far: an exception
  leaves the loop at once, and every later upload is left unread.
\<close>

fun batch_embed_loop ::
  "codec \<Rightarrow> string \<Rightarrow> pyfloat \<Rightarrow> string \<Rightarrow> int \<Rightarrow> string \<Rightarrow> string
     \<Rightarrow> (string \<times> image) list \<Rightarrow> upload list \<Rightarrow> py_error + (string \<times> image) list" where
  "batch_embed_loop codec data scale position margin fill_color back_color zf [] = Inr zf"
| "batch_embed_loop codec data scale position margin fill_color back_color zf (upl # rest) =
     (case batch_embed_item codec data scale position margin fill_color back_color upl of
        Inl e \<Rightarrow> Inl e
      | Inr entry \<Rightarrow>
          batch_embed_loop codec data scale position margin fill_color back_color
            (zf @ [entry]) rest)"

text \<open>
  \<^verbatim>\<open>
  @app.post("/batch/embed", tags=["batch"])
  async def batch_embed_qr(backgrounds, data, scale=0.3, position="center", margin=20,
                           fill_color="black", back_color="white"):
      try:
          zip_buf = io.BytesIO()
          with zipfile.ZipFile(zip_buf, "w", zipfile.ZIP_DEFLATED) as zf:
              for file in backgrounds:
                  ...
          zip_buf.seek(0)
      except ValueError as ve:
          raise HTTPException(status_code=400, detail=str(ve))
      except Exception:
          raise HTTPException(status_code=500, detail="Internal server error")
      return StreamingResponse(zip_buf, media_type="application/zip", headers=...)
  \<close>
\<close>

definition batch_embed_qr ::
  "codec \<Rightarrow> upload list \<Rightarrow> string \<Rightarrow> pyfloat \<Rightarrow> string \<Rightarrow> int \<Rightarrow> string \<Rightarrow> string
     \<Rightarrow> response" where
  "batch_embed_qr codec backgrounds data scale position margin fill_color back_color =
     (case batch_embed_loop codec data scale position margin fill_color back_color []
             backgrounds of
        Inl e \<Rightarrow>
          if is_value_error e then HTTPException 400 (exc_str e)
          else HTTPException 500 ''Internal server error''
      | Inr zf \<Rightarrow> StreamingResponse (ZipArchive zf) ''application/zip'')"

section \<open>qr\_builder.cli: the names of batch-embed outputs\<close>






section \<open>Module loading\<close>

text \<open>
  \<^verbatim>\<open>from .core import (a, b, ...)\<close> looks each name up among the names the module
  \<^verbatim>\<open>qr_builder.core\<close> binds at top level, in the order written, and raises
  \<^verbatim>\<open>ImportError\<close> at the first one it does not find (the message of the interpreter
  goes on with the path of the module's file). The core module binds the names of its
  imports, its logger, its four constants and its eight functions.
\<close>

definition core_names :: "string list" where
  "core_names =
     [''annotations'', ''logging'', ''Path'', ''Literal'', ''qrcode'', ''Image'', ''logger'',
      ''MAX_DATA_LENGTH'', ''MAX_QR_SIZE'', ''MIN_QR_SIZE'', ''VALID_POSITIONS'',
      ''validate_data'', ''validate_size'', ''generate_qr'', ''calculate_position'',
      ''embed_qr_in_image'', ''generate_qr_only'', ''generate_artistic_qr'',
      ''generate_qr_with_logo'']"

text \<open>
  \<^verbatim>\<open>
  from .core import (
      generate_qr, calculate_position, generate_qr_with_logo, generate_qr_with_text,
      generate_artistic_qr, generate_qart, QRStyle, ARTISTIC_PRESETS,
  )
  \<close>
  in \<^verbatim>\<open>api.py\<close>, and in \<^verbatim>\<open>cli.py\<close>
  \<^verbatim>\<open>
  from .core import generate_qr_only, embed_qr_in_image, generate_qr_with_logo, generate_artistic_qr
  \<close>
\<close>

definition api_core_imports :: "string list" where
  "api_core_imports =
     [''generate_qr'', ''calculate_position'', ''generate_qr_with_logo'',
      ''generate_qr_with_text'', ''generate_artistic_qr'', ''generate_qart'', ''QRStyle'',
      ''ARTISTIC_PRESETS'']"

definition cli_core_imports :: "string list" where
  "cli_core_imports =
     [''generate_qr_only'', ''embed_qr_in_image'', ''generate_qr_with_logo'',
      ''generate_artistic_qr'']"

fun import_from :: "string list \<Rightarrow> string list \<Rightarrow> py_error + unit" where
  "import_from defined [] = Inr ()"
| "import_from defined (n # ns) =
     (if n \<in> set defined then import_from defined ns
      else Inl (ImportError (''cannot import name '' @ [CHR 0x27] @ n @ [CHR 0x27] @
             '' from '' @ [CHR 0x27] @ ''qr_builder.core'' @ [CHR 0x27])))"

section \<open>Specification-level notions\<close>

text \<open>
  A string is whitespace-only when each of its characters is whitespace.
\<close>

definition whitespace_only :: "string \<Rightarrow> bool" where
  "whitespace_only s = list_all py_isspace s"

text \<open>
  A casing variant of a name agrees with it position by position up to the case of
  the letters: each character is the name's character or its capital.
\<close>

definition upper_ascii :: "char \<Rightarrow> char" where
  "upper_ascii c =
     (let n = of_char c :: nat
      in if 97 \<le> n \<and> n \<le> 122 then char_of (n - 32) else c)"

definition casing_variant :: "string \<Rightarrow> string \<Rightarrow> bool" where
  "casing_variant s name = list_all2 (\<lambda>c d. c = d \<or> c = upper_ascii d) s name"

text \<open>The characters of the anchor names: the small letters a-z and the hyphen.\<close>

definition anchor_char :: "char \<Rightarrow> bool" where
  "anchor_char d =
     ((97 \<le> (of_char d :: nat) \<and> (of_char d :: nat) \<le> 122) \<or> of_char d = (45::nat))"

text \<open>
  The number a finite float stands for, and the closed interval of the logo scale: the
  floats between the literals \<^verbatim>\<open>0.1\<close> and \<^verbatim>\<open>0.4\<close>, both included.
\<close>

definition fin_val :: "int \<Rightarrow> int \<Rightarrow> rat" where
  "fin_val m e = of_int m * 2 powi e"

definition logo_scale_in_range :: "pyfloat \<Rightarrow> bool" where
  "logo_scale_in_range s = (float_le float_0_1 s \<and> float_le s float_0_4)"

section \<open>Example inputs\<close>

text \<open>
  A stand-in for the codec at the inputs the examples use, where it answers as the
  libraries do (qrcode 7.4 and later, with Pillow):
  \<^item> a text of small letters only is encoded byte by byte, and the largest symbol holds
    1273 bytes at error-correction level H; beyond that the codec asks for version 41 and
    raises \<^verbatim>\<open>ValueError("Invalid version (was 41, expected 1 to 40)")\<close>;
  \<^item> the colour \<^verbatim>\<open>rgb(0,99999999999,0)\<close> is read as three integers without a range
    check, and filling the canvas with it raises
    \<^verbatim>\<open>OverflowError("signed integer is greater than maximum")\<close>, which is not a
    \<^verbatim>\<open>ValueError\<close>;
  \<^item> the text \<^verbatim>\<open>https://x\<close> in black on white gives a bilevel symbol of 33 modules
    with the border, 10 pixels each.
  On every other input the stand-in gives that same symbol; nothing below uses it there.
\<close>

definition example_qr :: image where
  "example_qr = \<lparr>im_width = 330, im_height = 330, im_mode = ''1'', im_layers = []\<rparr>"

definition small_letter :: "char \<Rightarrow> bool" where
  "small_letter c = (97 \<le> (of_char c :: nat) \<and> (of_char c :: nat) \<le> 122)"

definition example_codec :: codec where
  "example_codec data border fill_color back_color =
     (if list_all small_letter data \<and> 1273 < length data
        then Inl (ValueError ''Invalid version (was 41, expected 1 to 40)'')
      else if back_color = ''rgb(0,99999999999,0)''
        then Inl (OtherException ''OverflowError'' ''signed integer is greater than maximum'')
      else Inr example_qr)"

definition example_env :: env where
  "example_env = \<lparr>qr_codec = example_codec, save_error = (\<lambda>path img. None)\<rparr>"

definition example_background :: image where
  "example_background =
     \<lparr>im_width = 400, im_height = 300, im_mode = ''RGB'', im_layers = []\<rparr>"

definition example_logo :: image where
  "example_logo = \<lparr>im_width = 64, im_height = 64, im_mode = ''RGBA'', im_layers = []\<rparr>"

definition example_fs :: filesystem where
  "example_fs =
     [''bg.png'' \<mapsto> ImageFile example_background, ''logo.png'' \<mapsto> ImageFile example_logo]"

definition example_upload :: upload where
  "example_upload =
     \<lparr>filename = Some ''photo.jpg'', content = ImageFile example_background\<rparr>"

definition example_broken_upload :: upload where
  "example_broken_upload = \<lparr>filename = Some ''notes.txt'', content = OtherFile\<rparr>"

definition example_unnamed_upload :: upload where
  "example_unnamed_upload = \<lparr>filename = None, content = ImageFile example_background\<rparr>"

definition example_result :: image where
  "example_result =
     \<lparr>im_width = 400, im_height = 300, im_mode = ''RGBA'',
      im_layers = [Pasted 100 100 290 190]\<rparr>"




section \<open>Facts about floats\<close>

lemma excess_bits_small: "a < 2 ^ 53 \<Longrightarrow> excess_bits a = 0"
  by (subst excess_bits.simps) simp

lemma excess_bits_large:
  "\<not> a < 2 ^ 53 \<Longrightarrow> excess_bits a = Suc (excess_bits (a div 2))"
  by (subst excess_bits.simps) simp

lemma round_to_double_finite: "\<exists>a b. round_to_double m e = Finite a b"
  by (simp add: round_to_double_def Let_def)

text \<open>The product of an integer and a finite float is finite, so \<open>int\<close> returns.\<close>

lemma py_int_mul_finite:
  "\<exists>q. py_int (float_mul (float_of_int n) (Finite m e)) = Inr q"
proof -
  obtain a b where ab: "float_of_int n = Finite a b"
    unfolding float_of_int_def using round_to_double_finite by blast
  obtain c d where cd: "round_to_double (a * m) (b + e) = Finite c d"
    using round_to_double_finite by blast
  show ?thesis
    by (simp add: ab float_mul_def cd py_int_def)
qed

text \<open>The comparison of the model is the comparison of the numbers.\<close>

lemma fin_val_scaled:
  assumes "d \<le> e"
  shows "(of_int (m * 2 ^ nat (e - d)) :: rat) * 2 powi d = of_int m * 2 powi e"
proof -
  have "(2::rat) powi e = 2 powi (e - d) * 2 powi d"
    by (simp flip: power_int_add)
  moreover have "(2::rat) powi (e - d) = 2 ^ nat (e - d)"
    using assms by (simp add: power_int_def)
  ultimately show ?thesis by simp
qed

lemma fin_le_iff: "fin_le m1 e1 m2 e2 \<longleftrightarrow> fin_val m1 e1 \<le> fin_val m2 e2"
proof -
  define d where "d = min e1 e2"
  have p: "(0::rat) < 2 powi d" by simp
  have "fin_le m1 e1 m2 e2 \<longleftrightarrow>
      (of_int (m1 * 2 ^ nat (e1 - d)) :: rat) \<le> of_int (m2 * 2 ^ nat (e2 - d))"
    unfolding fin_le_def Let_def d_def by (simp only: of_int_le_iff)
  also have "\<dots> \<longleftrightarrow> (of_int (m1 * 2 ^ nat (e1 - d)) :: rat) * 2 powi d
       \<le> of_int (m2 * 2 ^ nat (e2 - d)) * 2 powi d"
    using p by (simp only: mult_le_cancel_right_pos)
  also have "\<dots> \<longleftrightarrow> fin_val m1 e1 \<le> fin_val m2 e2"
  proof -
    have "d \<le> e1" "d \<le> e2" by (simp_all add: d_def)
    then show ?thesis
      unfolding fin_val_def by (simp only: fin_val_scaled)
  qed
  finally show ?thesis .
qed

text \<open>
  Each literal lies within half a unit in the last place of its decimal: it is the
  binary64 value Python reads the decimal as.
\<close>

lemma float_literals_nearest:
  "\<bar>fin_val 3602879701896397 (- 56) - 5 / 100\<bar> \<le> 1 / 2 ^ 58"
  "\<bar>fin_val 3602879701896397 (- 55) - 1 / 10\<bar> \<le> 1 / 2 ^ 57"
  "\<bar>fin_val 3602879701896397 (- 53) - 4 / 10\<bar> \<le> 1 / 2 ^ 55"
  "\<bar>fin_val 7385903388887613 (- 54) - 41 / 100\<bar> \<le> 1 / 2 ^ 55"
  "fin_val 1 (- 2) = 25 / 100"
  by (simp_all add: fin_val_def power_int_minus field_simps)

lemma logo_scale_in_range_iff:
  "logo_scale_in_range (Finite m e) \<longleftrightarrow>
     fin_val 3602879701896397 (- 55) \<le> fin_val m e
     \<and> fin_val m e \<le> fin_val 3602879701896397 (- 53)"
  by (simp add: logo_scale_in_range_def float_0_1_def float_0_4_def fin_le_iff)

lemma logo_scale_finite: "logo_scale_in_range s \<Longrightarrow> \<exists>m e. s = Finite m e"
  unfolding logo_scale_in_range_def float_0_1_def float_0_4_def
  by (cases s) auto

lemma logo_scale_literals:
  "\<not> logo_scale_in_range float_0_05" "logo_scale_in_range float_0_1"
  "logo_scale_in_range float_0_4" "\<not> logo_scale_in_range float_0_41"
  by (simp_all add: logo_scale_in_range_def float_0_05_def float_0_1_def float_0_4_def
      float_0_41_def fin_le_def)

lemma int_400_quarter: "py_int (float_mul (float_of_int 400) float_0_25) = Inr 100"
  by (simp add: float_mul_def float_of_int_def round_to_double_def py_int_def Let_def
      excess_bits_small float_0_25_def)

text \<open>
  Rounding matters: the exact product of 100 and the float \<^verbatim>\<open>0.3\<close> lies below 30, and
  the float product is 30.
\<close>

lemma int_100_three_tenths: "py_int (float_mul (float_of_int 100) float_0_3) = Inr 30"
  by (simp add: float_mul_def float_of_int_def round_to_double_def py_int_def Let_def
      excess_bits_small excess_bits_large float_0_3_def)

lemma scale_quarter_ok:
  "float_lt (Finite 0 0) float_0_25 \<and> float_le float_0_25 (Finite 1 0)"
  by (simp add: float_0_25_def fin_lt_def fin_le_def)

section \<open>Facts about strings\<close>

lemma char_code_cases:
  obtains n :: nat where "n < 256" and "c = char_of n"
proof -
  have "c \<in> char_of ` {0::nat..<256}"
    using UNIV_char_of_nat by blast
  then show thesis using that by auto
qed

lemma char_of_nat_eq_iff:
  "m < 256 \<Longrightarrow> n < 256 \<Longrightarrow> char_of (m::nat) = char_of n \<longleftrightarrow> m = n"
  using inj_on_char_of_nat by (auto simp: inj_on_def)

lemma char_eq_char_of_iff: "c = char_of (n::nat) \<longleftrightarrow> take_bit 8 n = of_char c"
  using char_of_eq_iff [of n c] by auto

lemma lower_char_eq_anchor_char:
  assumes "anchor_char d"
  shows "lower_char c = d \<longleftrightarrow> c = d \<or> c = upper_ascii d"
proof -
  obtain m :: nat where m: "m < 256" "c = char_of m" by (rule char_code_cases)
  obtain n :: nat where n: "n < 256" "d = char_of n" by (rule char_code_cases)
  from assms n have n': "(97 \<le> n \<and> n \<le> 122) \<or> n = 45"
    by (simp add: anchor_char_def)
  show ?thesis
    using m n n'
    by (auto simp: lower_char_def upper_ascii_def Let_def char_of_nat_eq_iff)
qed

lemma lower_eq_iff_casing_variant:
  "list_all anchor_char name \<Longrightarrow> lower s = name \<longleftrightarrow> casing_variant s name"
proof (induction name arbitrary: s)
  case Nil
  then show ?case by (simp add: lower_def casing_variant_def)
next
  case (Cons d ds)
  show ?case
  proof (cases s)
    case Nil
    then show ?thesis by (simp add: lower_def casing_variant_def)
  next
    case (Cons c cs)
    have "lower cs = ds \<longleftrightarrow> casing_variant cs ds"
      using Cons.IH Cons.prems by simp
    moreover have "lower_char c = d \<longleftrightarrow> c = d \<or> c = upper_ascii d"
      using Cons.prems by (simp add: lower_char_eq_anchor_char)
    ultimately show ?thesis
      using Cons by (simp add: lower_def casing_variant_def)
  qed
qed

lemma valid_positions_anchor_chars:
  "name \<in> set VALID_POSITIONS \<Longrightarrow> list_all anchor_char name"
  by (auto simp: VALID_POSITIONS_def anchor_char_def)

lemma strip_empty_iff: "strip s = [] \<longleftrightarrow> whitespace_only s"
proof
  assume "strip s = []"
  then have "\<forall>c \<in> set (dropWhile py_isspace s). py_isspace c"
    by (simp add: strip_def dropWhile_eq_Nil_conv)
  then have "dropWhile py_isspace s = []"
    using hd_dropWhile [of py_isspace s] hd_in_set [of "dropWhile py_isspace s"] by blast
  then show "whitespace_only s"
    by (simp add: whitespace_only_def dropWhile_eq_Nil_conv list_all_iff)
next
  assume "whitespace_only s"
  then show "strip s = []"
    by (auto simp: strip_def whitespace_only_def list_all_iff dest: set_dropWhileD)
qed

lemma calculate_position_lower:
  "calculate_position w h q (lower p) m = calculate_position w h q p m"
proof -
  have "lower_char (lower_char c) = lower_char c" for c
  proof -
    obtain n :: nat where "n < 256" "c = char_of n" by (rule char_code_cases)
    then show ?thesis by (auto simp: lower_char_def Let_def)
  qed
  then have "lower (lower p) = lower p"
    by (simp add: lower_def)
  then show ?thesis
    by (simp add: calculate_position_def)
qed

section \<open>Claims about the validators and the position calculator\<close>

text \<open>
  C1. For all integers \<open>bg_w\<close>, \<open>bg_h\<close>, \<open>qr_size\<close> and \<open>margin\<close>, and each of the five
  anchors, \<open>calculate_position\<close> returns the closed-form coordinates (floor division for
  the centre), with no clamping and no error: the equations hold for every integer, so
  also where a coordinate is negative or beyond the background.
\<close>

theorem calculate_position_closed_form:
  "calculate_position bg_w bg_h qr_size ''center'' margin =
     Inr ((bg_w - qr_size) div 2, (bg_h - qr_size) div 2)
   \<and> calculate_position bg_w bg_h qr_size ''top-left'' margin = Inr (margin, margin)
   \<and> calculate_position bg_w bg_h qr_size ''top-right'' margin =
       Inr (bg_w - qr_size - margin, margin)
   \<and> calculate_position bg_w bg_h qr_size ''bottom-left'' margin =
       Inr (margin, bg_h - qr_size - margin)
   \<and> calculate_position bg_w bg_h qr_size ''bottom-right'' margin =
       Inr (bg_w - qr_size - margin, bg_h - qr_size - margin)"
  by (simp add: calculate_position_def lower_def lower_char_def)

text \<open>
  C2. \<open>validate_data\<close> raises \<open>ValueError\<close> (the spec's InvalidInput) exactly when the data
  is empty, whitespace-only or longer than 4296 characters, and returns otherwise;
  \<open>validate_size\<close> raises it exactly when the size lies outside 21 .. 4000, and returns
  otherwise. Both are functions of their argument alone, defined on every input.
\<close>

theorem validators_raise_exactly:
  "((\<exists>msg. validate_data d = Inl (ValueError msg)) \<longleftrightarrow>
      (d = [] \<or> whitespace_only d \<or> 4296 < length d))
   \<and> (validate_data d = Inr () \<longleftrightarrow>
      \<not> (d = [] \<or> whitespace_only d \<or> 4296 < length d))
   \<and> ((\<exists>msg. validate_size n = Inl (ValueError msg)) \<longleftrightarrow> (n < 21 \<or> 4000 < n))
   \<and> (validate_size n = Inr () \<longleftrightarrow> (21 \<le> n \<and> n \<le> 4000))"
proof -
  have "strip d = [] \<longleftrightarrow> whitespace_only d"
    by (rule strip_empty_iff)
  then have d: "((\<exists>msg. validate_data d = Inl (ValueError msg)) \<longleftrightarrow>
      (d = [] \<or> whitespace_only d \<or> 4296 < length d))
   \<and> (validate_data d = Inr () \<longleftrightarrow>
      \<not> (d = [] \<or> whitespace_only d \<or> 4296 < length d))"
    by (auto simp: validate_data_def MAX_DATA_LENGTH_def)
  have n: "((\<exists>msg. validate_size n = Inl (ValueError msg)) \<longleftrightarrow> (n < 21 \<or> 4000 < n))
   \<and> (validate_size n = Inr () \<longleftrightarrow> (21 \<le> n \<and> n \<le> 4000))"
    by (auto simp: validate_size_def MIN_QR_SIZE_def MAX_QR_SIZE_def)
  from d n show ?thesis by blast
qed

theorem validators_raise_exactly_witness:
  "validate_data ''  '' = Inl (ValueError ''Data cannot be empty.'')
   \<and> validate_data ''https://x'' = Inr ()
   \<and> validate_size 20 = Inl (ValueError ''Size must be between 21 and 4000 pixels.'')
   \<and> validate_size 21 = Inr () \<and> validate_size 4000 = Inr ()
   \<and> (\<exists>msg. validate_size 4001 = Inl (ValueError msg))"
proof -
  have ws: "whitespace_only ''  ''" and nws: "\<not> whitespace_only ''https://x''"
    by (simp_all add: whitespace_only_def py_isspace_def)
  have "\<exists>msg. validate_data ''  '' = Inl (ValueError msg)"
    using validators_raise_exactly [of "''  ''" 20] ws by blast
  then have a: "validate_data ''  '' = Inl (ValueError ''Data cannot be empty.'')"
    by (auto simp: validate_data_def MAX_DATA_LENGTH_def strip_def py_isspace_def
        split: if_splits)
  have b: "validate_data ''https://x'' = Inr ()"
    using validators_raise_exactly [of "''https://x''" 21] nws by simp
  have "\<exists>msg. validate_size 20 = Inl (ValueError msg)"
    using validators_raise_exactly [of "''a''" 20] by simp
  then have c: "validate_size 20 = Inl (ValueError ''Size must be between 21 and 4000 pixels.'')"
    by (auto simp: validate_size_def split: if_splits)
  have d: "validate_size 21 = Inr ()" "validate_size 4000 = Inr ()"
    using validators_raise_exactly [of "''a''" 21] validators_raise_exactly [of "''a''" 4000]
    by simp_all
  have e: "\<exists>msg. validate_size 4001 = Inl (ValueError msg)"
    using validators_raise_exactly [of "''a''" 4001] by simp
  from a b c d e show ?thesis by blast
qed

text \<open>
  C7. \<open>calculate_position\<close> reads the anchor case-insensitively: on every casing variant
  of one of the five anchor names it returns what it returns on the name itself, and on
  every string that is a casing variant of none of them it raises \<open>ValueError\<close>.
\<close>

theorem calculate_position_case_insensitive:
  "(name \<in> set VALID_POSITIONS \<and> casing_variant p name \<longrightarrow>
      calculate_position w h q p m = calculate_position w h q name m
      \<and> (\<exists>xy. calculate_position w h q p m = Inr xy))
   \<and> ((\<forall>name \<in> set VALID_POSITIONS. \<not> casing_variant p name) \<longrightarrow>
      calculate_position w h q p m = Inl (ValueError (unsupported_position (lower p))))"
proof (intro conjI impI)
  assume a: "name \<in> set VALID_POSITIONS \<and> casing_variant p name"
  then have l: "lower p = name"
    using lower_eq_iff_casing_variant [OF valid_positions_anchor_chars] by blast
  show "calculate_position w h q p m = calculate_position w h q name m"
    using calculate_position_lower [of w h q p m] l by simp
  show "\<exists>xy. calculate_position w h q p m = Inr xy"
    using a l by (auto simp: calculate_position_def VALID_POSITIONS_def)
next
  assume a: "\<forall>name \<in> set VALID_POSITIONS. \<not> casing_variant p name"
  have "lower p \<noteq> name" if "name \<in> set VALID_POSITIONS" for name
    using a that lower_eq_iff_casing_variant [OF valid_positions_anchor_chars [OF that]]
    by blast
  then show "calculate_position w h q p m = Inl (ValueError (unsupported_position (lower p)))"
    by (simp add: calculate_position_def VALID_POSITIONS_def)
qed

theorem calculate_position_case_insensitive_witness:
  "calculate_position 400 300 100 ''Bottom-RIGHT'' 10 = Inr (290, 190)
   \<and> (\<exists>msg. calculate_position 400 300 100 ''middle'' 10 = Inl (ValueError msg))"
proof -
  have v: "''bottom-right'' \<in> set VALID_POSITIONS"
    by (simp add: VALID_POSITIONS_def)
  have c: "casing_variant ''Bottom-RIGHT'' ''bottom-right''"
    by (simp add: casing_variant_def upper_ascii_def char_eq_char_of_iff)
  have "calculate_position 400 300 100 ''Bottom-RIGHT'' 10 =
        calculate_position 400 300 100 ''bottom-right'' 10"
    using calculate_position_case_insensitive
      [of "''bottom-right''" "''Bottom-RIGHT''" 400 300 100 10] v c by blast
  then have a: "calculate_position 400 300 100 ''Bottom-RIGHT'' 10 = Inr (290, 190)"
    by (simp add: calculate_position_def lower_def lower_char_def)
  have n: "\<forall>name \<in> set VALID_POSITIONS. \<not> casing_variant ''middle'' name"
    by (simp add: VALID_POSITIONS_def casing_variant_def upper_ascii_def char_eq_char_of_iff)
  have b: "\<exists>msg. calculate_position 400 300 100 ''middle'' 10 = Inl (ValueError msg)"
    using calculate_position_case_insensitive
      [of "''center''" "''middle''" 400 300 100 10] n by blast
  from a b show ?thesis by blast
qed

section \<open>Facts about rendering and compositing\<close>

lemma validate_data_https: "validate_data ''https://x'' = Inr ()"
  by (simp add: validate_data_def strip_def py_isspace_def MAX_DATA_LENGTH_def)

lemma validate_data_long: "validate_data (replicate 3000 (CHR ''a'')) = Inr ()"
proof -
  have "\<not> whitespace_only (replicate 3000 (CHR ''a''))"
    by (simp add: whitespace_only_def list_all_iff py_isspace_def)
  then show ?thesis
    by (simp add: validate_data_def strip_empty_iff MAX_DATA_LENGTH_def)
qed

lemma example_codec_long:
  "example_codec (replicate 3000 (CHR ''a'')) border fc bc =
     Inl (ValueError ''Invalid version (was 41, expected 1 to 40)'')"
  by (simp add: example_codec_def list_all_iff small_letter_def)

lemma generate_qr_Inr_iff:
  "generate_qr codec data S border fc bc = Inr img \<longleftrightarrow>
     validate_data data = Inr () \<and> validate_size S = Inr () \<and>
     (\<exists>raw. codec data border fc bc = Inr raw \<and>
        img = pil_resize (S, S) (pil_convert ''RGBA'' raw))"
  by (auto simp: generate_qr_def split: sum.splits)

lemma generate_qr_https_100:
  "codec ''https://x'' 4 fc bc = Inr raw \<Longrightarrow>
   generate_qr codec ''https://x'' 100 4 fc bc =
     Inr (pil_resize (100, 100) (pil_convert ''RGBA'' raw))"
  by (simp add: generate_qr_Inr_iff validate_data_https validate_size_def MIN_QR_SIZE_def
      MAX_QR_SIZE_def)

lemma position_bottom_right_400_300:
  "calculate_position 400 300 100 ''bottom-right'' 10 = Inr (290, 190)"
  by (simp add: calculate_position_def lower_def lower_char_def)

text \<open>What a successful run of the two embed functions has gone through.\<close>

lemma embed_qr_try_Inr:
  assumes "embed_qr_try codec background data s position margin fc bc = Inr out"
  shows "\<exists>bg q raw xy. content background = ImageFile bg
           \<and> float_lt (Finite 0 0) s \<and> float_le s (Finite 1 0)
           \<and> py_int (float_mul (float_of_int (im_width bg)) s) = Inr q
           \<and> generate_qr codec data q 4 fc bc = Inr raw
           \<and> calculate_position (im_width bg) (im_height bg) q position margin = Inr xy
           \<and> out = pil_paste (pil_convert ''RGBA'' bg) raw xy"
  using assms
  by (auto simp: embed_qr_try_def image_open_def pil_convert_def Let_def
      split: sum.splits stored.splits if_splits)

lemma embed_qr_in_image_Inr:
  assumes "embed_qr_in_image ev fs bgp data outp s position margin fc bc = (Inr p, fs')"
  shows "\<exists>bg q raw xy. fs bgp = Some (ImageFile bg)
           \<and> float_lt (Finite 0 0) s \<and> float_le s (Finite 1 0)
           \<and> py_int (float_mul (float_of_int (im_width bg)) s) = Inr q
           \<and> generate_qr (qr_codec ev) data q 4 fc bc = Inr raw
           \<and> calculate_position (im_width bg) (im_height bg) q position margin = Inr xy
           \<and> save_error ev outp (pil_paste (pil_convert ''RGBA'' bg) raw xy) = None
           \<and> p = outp
           \<and> fs' = fs(outp \<mapsto> ImageFile (pil_paste (pil_convert ''RGBA'' bg) raw xy))"
  using assms
  by (auto simp: embed_qr_in_image_def image_open_def pil_convert_def Let_def
      split: sum.splits stored.splits if_splits option.splits)

text \<open>The scenario of the spec, for any background of 400 by 300 pixels.\<close>

lemma embed_qr_try_scenario:
  assumes "content up = ImageFile bg" "im_width bg = 400" "im_height bg = 300"
    and "codec ''https://x'' 4 fc bc = Inr raw"
  shows "embed_qr_try codec up ''https://x'' float_0_25 ''bottom-right'' 10 fc bc =
     Inr (bg\<lparr>im_mode := ''RGBA'', im_layers := im_layers bg @ [Pasted 100 100 290 190]\<rparr>)"
  using assms scale_quarter_ok
  by (simp add: embed_qr_try_def image_open_def pil_convert_def int_400_quarter
      generate_qr_https_100 position_bottom_right_400_300 pil_paste_def pil_resize_def)

lemma embed_qr_in_image_scenario:
  assumes "fs bgp = Some (ImageFile bg)" "im_width bg = 400" "im_height bg = 300"
    and "qr_codec ev ''https://x'' 4 fc bc = Inr raw"
    and "\<forall>img. save_error ev outp img = None"
  shows "embed_qr_in_image ev fs bgp ''https://x'' outp float_0_25 ''bottom-right'' 10 fc bc =
     (Inr outp, fs(outp \<mapsto> ImageFile
        (bg\<lparr>im_mode := ''RGBA'', im_layers := im_layers bg @ [Pasted 100 100 290 190]\<rparr>)))"
  using assms scale_quarter_ok
  by (simp add: embed_qr_in_image_def image_open_def pil_convert_def int_400_quarter
      generate_qr_https_100 position_bottom_right_400_300 pil_paste_def pil_resize_def)

lemma generate_qr_with_logo_out_of_range:
  assumes "fs logo_path = Some f" "\<not> logo_scale_in_range s"
  shows "generate_qr_with_logo ev fs data logo_path outp sz s fc bc =
     (Inl (ValueError ''logo_scale should be between 0.1 and 0.4 for reliable scanning.''), fs)"
  using assms by (simp add: generate_qr_with_logo_def logo_scale_in_range_def)

lemma generate_qr_with_logo_in_range:
  assumes "fs logo_path = Some (ImageFile logo)" "logo_scale_in_range s"
    and "validate_data data = Inr ()" "validate_size sz = Inr ()"
    and "qr_codec ev data 4 fc bc = Inr raw"
    and "\<forall>img. save_error ev outp img = None"
  shows "fst (generate_qr_with_logo ev fs data logo_path outp sz s fc bc) = Inr outp"
proof -
  obtain m e where s: "s = Finite m e"
    using logo_scale_finite assms(2) by blast
  obtain q where q: "py_int (float_mul (float_of_int sz) s) = Inr q"
    unfolding s using py_int_mul_finite by blast
  have g: "generate_qr (qr_codec ev) data sz 4 fc bc =
      Inr (pil_resize (sz, sz) (pil_convert ''RGBA'' raw))"
    using assms by (simp add: generate_qr_Inr_iff)
  show ?thesis
    using assms(1,2,6) q g
    by (simp add: generate_qr_with_logo_def logo_scale_in_range_def image_open_def Let_def)
qed

section \<open>Claims about rendering and compositing\<close>

text \<open>
  C8, as the claim states it: every data string that passes validation gives an image. A
  text of 3000 small letters passes \<open>validate_data\<close>, the size 500 passes
  \<open>validate_size\<close>, and the codec has no symbol for the text at error-correction level H:
  the renderer raises and returns no image.
\<close>

theorem generate_qr_valid_data_counterexample:
  "validate_data (replicate 3000 (CHR ''a'')) = Inr ()
   \<and> validate_size 500 = Inr ()
   \<and> generate_qr example_codec (replicate 3000 (CHR ''a'')) 500 4 ''black'' ''white'' =
       Inl (ValueError ''Invalid version (was 41, expected 1 to 40)'')"
  by (simp add: generate_qr_def validate_data_long example_codec_long validate_size_def
      MIN_QR_SIZE_def MAX_QR_SIZE_def)

text \<open>
  C8, amended. For every data string that passes validation and every size \<open>S\<close> in
  21 .. 4000: if the codec encodes the data, returning a symbol image of whatever size and
  mode it chooses, the renderer returns an image of exactly \<open>S\<close> by \<open>S\<close> pixels in the
  mode RGBA, which has an alpha channel; if the codec raises, the renderer raises the same
  exception. The renderer returns an image exactly when the data and the size pass
  validation and the codec encodes the data, and every image it returns is \<open>S\<close> by \<open>S\<close>
  in the mode RGBA.
\<close>

theorem generate_qr_square:
  "(validate_data data = Inr () \<and> 21 \<le> S \<and> S \<le> 4000
      \<and> codec data border fc bc = Inr raw \<longrightarrow>
      (\<exists>img. generate_qr codec data S border fc bc = Inr img
         \<and> im_width img = S \<and> im_height img = S \<and> im_mode img = ''RGBA''))
   \<and> (generate_qr codec data S border fc bc = Inr img' \<longrightarrow>
      im_width img' = S \<and> im_height img' = S \<and> im_mode img' = ''RGBA'')
   \<and> ((\<exists>img. generate_qr codec data S border fc bc = Inr img) \<longleftrightarrow>
      validate_data data = Inr () \<and> 21 \<le> S \<and> S \<le> 4000
      \<and> (\<exists>raw. codec data border fc bc = Inr raw))
   \<and> (validate_data data = Inr () \<and> 21 \<le> S \<and> S \<le> 4000
      \<and> codec data border fc bc = Inl e \<longrightarrow>
      generate_qr codec data S border fc bc = Inl e)"
proof -
  have vs: "validate_size S = Inr () \<longleftrightarrow> 21 \<le> S \<and> S \<le> 4000"
    by (auto simp: validate_size_def MIN_QR_SIZE_def MAX_QR_SIZE_def)
  have p1: "validate_data data = Inr () \<and> 21 \<le> S \<and> S \<le> 4000
      \<and> codec data border fc bc = Inr raw \<longrightarrow>
      (\<exists>img. generate_qr codec data S border fc bc = Inr img
         \<and> im_width img = S \<and> im_height img = S \<and> im_mode img = ''RGBA'')"
    by (simp add: generate_qr_Inr_iff vs pil_resize_def pil_convert_def)
  have p2: "generate_qr codec data S border fc bc = Inr img' \<longrightarrow>
      im_width img' = S \<and> im_height img' = S \<and> im_mode img' = ''RGBA''"
    by (auto simp: generate_qr_Inr_iff pil_resize_def pil_convert_def)
  have p3: "(\<exists>img. generate_qr codec data S border fc bc = Inr img) \<longleftrightarrow>
      validate_data data = Inr () \<and> 21 \<le> S \<and> S \<le> 4000
      \<and> (\<exists>raw. codec data border fc bc = Inr raw)"
    by (auto simp: generate_qr_Inr_iff vs)
  have p4: "validate_data data = Inr () \<and> 21 \<le> S \<and> S \<le> 4000
      \<and> codec data border fc bc = Inl e \<longrightarrow>
      generate_qr codec data S border fc bc = Inl e"
    using vs by (auto simp: generate_qr_def)
  from p1 p2 p3 p4 show ?thesis by blast
qed

theorem generate_qr_square_witness:
  "generate_qr example_codec ''https://x'' 500 4 ''black'' ''white'' =
     Inr \<lparr>im_width = 500, im_height = 500, im_mode = ''RGBA'', im_layers = []\<rparr>
   \<and> generate_qr example_codec (replicate 3000 (CHR ''a'')) 500 4 ''black'' ''white'' =
     Inl (ValueError ''Invalid version (was 41, expected 1 to 40)'')
   \<and> \<not> (\<exists>img. generate_qr example_codec (replicate 3000 (CHR ''a'')) 500 4 ''black''
          ''white'' = Inr img)"
proof -
  have c: "example_codec ''https://x'' 4 ''black'' ''white'' = Inr example_qr"
    by (simp add: example_codec_def)
  from generate_qr_square
    [of "''https://x''" 500 example_codec 4 "''black''" "''white''" example_qr, THEN conjunct1]
    validate_data_https c
  obtain img where g: "generate_qr example_codec ''https://x'' 500 4 ''black'' ''white'' = Inr img"
    by auto
  from g have "im_layers img = []"
    by (auto simp: generate_qr_Inr_iff c pil_resize_def pil_convert_def example_qr_def)
  moreover have "im_width img = 500 \<and> im_height img = 500 \<and> im_mode img = ''RGBA''"
    using generate_qr_square
      [of "''https://x''" 500 example_codec 4 "''black''" "''white''" example_qr img,
        THEN conjunct2, THEN conjunct1] g
    by simp
  ultimately have "img = \<lparr>im_width = 500, im_height = 500, im_mode = ''RGBA'', im_layers = []\<rparr>"
    by (cases img) simp
  with g have a: "generate_qr example_codec ''https://x'' 500 4 ''black'' ''white'' =
     Inr \<lparr>im_width = 500, im_height = 500, im_mode = ''RGBA'', im_layers = []\<rparr>"
    by simp
  note long = generate_qr_square
    [where data = "replicate 3000 (CHR ''a'')" and S = 500 and codec = example_codec
       and border = 4 and fc = "''black''" and bc = "''white''"
       and e = "ValueError ''Invalid version (was 41, expected 1 to 40)''"]
  have b: "generate_qr example_codec (replicate 3000 (CHR ''a'')) 500 4 ''black'' ''white'' =
     Inl (ValueError ''Invalid version (was 41, expected 1 to 40)'')"
    using long [THEN conjunct2, THEN conjunct2, THEN conjunct2] validate_data_long
      example_codec_long
    by simp
  have d: "\<not> (\<exists>img. generate_qr example_codec (replicate 3000 (CHR ''a'')) 500 4 ''black''
          ''white'' = Inr img)"
    using long [THEN conjunct2, THEN conjunct2, THEN conjunct1] example_codec_long
    by simp
  from a b d show ?thesis by blast
qed

text \<open>
  C5. Whenever an embed succeeds on a background of width \<open>W\<close> with scale \<open>s\<close>, through
  the core function or through the \<^verbatim>\<open>/embed\<close> handler, the QR pasted onto the background
  is \<open>int(W * s)\<close> pixels wide and high and sits at the coordinate the position calculator
  gives. On a background of 400 by 300 with scale 0.25, position bottom-right and margin 10,
  where the codec and the save succeed, the QR is 100 pixels and sits at (290, 190).
\<close>

theorem embed_qr_size_and_placement:
  "(embed_qr_in_image ev fs bgp data outp s position margin fc bc = (Inr p, fs')
      \<and> fs bgp = Some (ImageFile bg) \<longrightarrow>
      (\<exists>q xy res. py_int (float_mul (float_of_int (im_width bg)) s) = Inr q
         \<and> calculate_position (im_width bg) (im_height bg) q position margin = Inr xy
         \<and> fs' outp = Some (ImageFile res)
         \<and> im_layers res = im_layers bg @ [Pasted q q (fst xy) (snd xy)]))
   \<and> (embed_qr codec up data s position margin fc bc = StreamingResponse (PngImage res') mt
      \<and> content up = ImageFile bg' \<longrightarrow>
      (\<exists>q xy. py_int (float_mul (float_of_int (im_width bg')) s) = Inr q
         \<and> calculate_position (im_width bg') (im_height bg') q position margin = Inr xy
         \<and> im_layers res' = im_layers bg' @ [Pasted q q (fst xy) (snd xy)]))
   \<and> (fs bgp = Some (ImageFile b) \<and> im_width b = 400 \<and> im_height b = 300
      \<and> qr_codec ev ''https://x'' 4 fc bc = Inr raw
      \<and> (\<forall>img. save_error ev outp img = None) \<longrightarrow>
      embed_qr_in_image ev fs bgp ''https://x'' outp float_0_25 ''bottom-right'' 10 fc bc =
        (Inr outp, fs(outp \<mapsto> ImageFile
          (b\<lparr>im_mode := ''RGBA'', im_layers := im_layers b @ [Pasted 100 100 290 190]\<rparr>))))
   \<and> (content up = ImageFile b \<and> im_width b = 400 \<and> im_height b = 300
      \<and> codec ''https://x'' 4 fc bc = Inr raw \<longrightarrow>
      embed_qr codec up ''https://x'' float_0_25 ''bottom-right'' 10 fc bc =
        StreamingResponse
          (PngImage (b\<lparr>im_mode := ''RGBA'',
             im_layers := im_layers b @ [Pasted 100 100 290 190]\<rparr>))
          ''image/png'')"
proof (intro conjI impI)
  assume a: "embed_qr_in_image ev fs bgp data outp s position margin fc bc = (Inr p, fs')
      \<and> fs bgp = Some (ImageFile bg)"
  from embed_qr_in_image_Inr [of ev fs bgp data outp s position margin fc bc p fs'] a
  obtain q rawq xy where
    q: "py_int (float_mul (float_of_int (im_width bg)) s) = Inr q"
    and g: "generate_qr (qr_codec ev) data q 4 fc bc = Inr rawq"
    and c: "calculate_position (im_width bg) (im_height bg) q position margin = Inr xy"
    and f: "fs' = fs(outp \<mapsto> ImageFile (pil_paste (pil_convert ''RGBA'' bg) rawq xy))"
    by auto
  from g have "im_width rawq = q" "im_height rawq = q"
    by (auto simp: generate_qr_Inr_iff pil_resize_def pil_convert_def)
  then have "im_layers (pil_paste (pil_convert ''RGBA'' bg) rawq xy) =
      im_layers bg @ [Pasted q q (fst xy) (snd xy)]"
    by (simp add: pil_paste_def pil_convert_def)
  with q c f show "\<exists>q xy res. py_int (float_mul (float_of_int (im_width bg)) s) = Inr q
         \<and> calculate_position (im_width bg) (im_height bg) q position margin = Inr xy
         \<and> fs' outp = Some (ImageFile res)
         \<and> im_layers res = im_layers bg @ [Pasted q q (fst xy) (snd xy)]"
    by auto
next
  assume a: "embed_qr codec up data s position margin fc bc =
      StreamingResponse (PngImage res') mt \<and> content up = ImageFile bg'"
  then have "embed_qr_try codec up data s position margin fc bc = Inr res'"
    by (auto simp: embed_qr_def split: sum.splits if_splits)
  from embed_qr_try_Inr [OF this] a
  obtain q rawq xy where
    q: "py_int (float_mul (float_of_int (im_width bg')) s) = Inr q"
    and g: "generate_qr codec data q 4 fc bc = Inr rawq"
    and c: "calculate_position (im_width bg') (im_height bg') q position margin = Inr xy"
    and f: "res' = pil_paste (pil_convert ''RGBA'' bg') rawq xy"
    by auto
  from g have "im_width rawq = q" "im_height rawq = q"
    by (auto simp: generate_qr_Inr_iff pil_resize_def pil_convert_def)
  then have "im_layers (pil_paste (pil_convert ''RGBA'' bg') rawq xy) =
      im_layers bg' @ [Pasted q q (fst xy) (snd xy)]"
    by (simp add: pil_paste_def pil_convert_def)
  with q c f show "\<exists>q xy. py_int (float_mul (float_of_int (im_width bg')) s) = Inr q
         \<and> calculate_position (im_width bg') (im_height bg') q position margin = Inr xy
         \<and> im_layers res' = im_layers bg' @ [Pasted q q (fst xy) (snd xy)]"
    by auto
next
  assume "fs bgp = Some (ImageFile b) \<and> im_width b = 400 \<and> im_height b = 300
      \<and> qr_codec ev ''https://x'' 4 fc bc = Inr raw
      \<and> (\<forall>img. save_error ev outp img = None)"
  then show "embed_qr_in_image ev fs bgp ''https://x'' outp float_0_25 ''bottom-right'' 10
        fc bc =
        (Inr outp, fs(outp \<mapsto> ImageFile
          (b\<lparr>im_mode := ''RGBA'', im_layers := im_layers b @ [Pasted 100 100 290 190]\<rparr>)))"
    using embed_qr_in_image_scenario by blast
next
  assume "content up = ImageFile b \<and> im_width b = 400 \<and> im_height b = 300
      \<and> codec ''https://x'' 4 fc bc = Inr raw"
  then have "embed_qr_try codec up ''https://x'' float_0_25 ''bottom-right'' 10 fc bc =
     Inr (b\<lparr>im_mode := ''RGBA'', im_layers := im_layers b @ [Pasted 100 100 290 190]\<rparr>)"
    using embed_qr_try_scenario by blast
  then show "embed_qr codec up ''https://x'' float_0_25 ''bottom-right'' 10 fc bc =
        StreamingResponse
          (PngImage (b\<lparr>im_mode := ''RGBA'',
             im_layers := im_layers b @ [Pasted 100 100 290 190]\<rparr>))
          ''image/png''"
    by (simp add: embed_qr_def)
qed

theorem embed_qr_size_and_placement_witness:
  "embed_qr_in_image example_env example_fs ''bg.png'' ''https://x'' ''out.png'' float_0_25
       ''bottom-right'' 10 ''black'' ''white'' =
     (Inr ''out.png'', example_fs(''out.png'' \<mapsto> ImageFile example_result))
   \<and> embed_qr example_codec example_upload ''https://x'' float_0_25 ''bottom-right'' 10
       ''black'' ''white'' = StreamingResponse (PngImage example_result) ''image/png''
   \<and> (\<exists>q xy. py_int (float_mul (float_of_int 400) float_0_25) = Inr q
         \<and> calculate_position 400 300 q ''bottom-right'' 10 = Inr xy
         \<and> im_layers example_result = [Pasted q q (fst xy) (snd xy)])"
proof -
  note inst = embed_qr_size_and_placement
    [where ev = example_env and fs = example_fs and bgp = "''bg.png''"
       and data = "''https://x''" and outp = "''out.png''" and s = float_0_25
       and position = "''bottom-right''" and margin = 10 and fc = "''black''"
       and bc = "''white''" and p = "''out.png''"
       and fs' = "example_fs(''out.png'' \<mapsto> ImageFile example_result)"
       and bg = example_background and codec = example_codec and up = example_upload
       and res' = example_result and mt = "''image/png''" and bg' = example_background
       and b = example_background and raw = example_qr]
  have r: "example_background\<lparr>im_mode := ''RGBA'',
      im_layers := im_layers example_background @ [Pasted 100 100 290 190]\<rparr> = example_result"
    by (simp add: example_background_def example_result_def)
  have h: "example_fs ''bg.png'' = Some (ImageFile example_background)"
    "content example_upload = ImageFile example_background"
    "im_width example_background = 400" "im_height example_background = 300"
    "qr_codec example_env ''https://x'' 4 ''black'' ''white'' = Inr example_qr"
    "example_codec ''https://x'' 4 ''black'' ''white'' = Inr example_qr"
    "\<forall>img. save_error example_env ''out.png'' img = None"
    by (simp_all add: example_fs_def example_upload_def example_background_def
        example_env_def example_codec_def)
  have a: "embed_qr_in_image example_env example_fs ''bg.png'' ''https://x'' ''out.png''
       float_0_25 ''bottom-right'' 10 ''black'' ''white'' =
     (Inr ''out.png'', example_fs(''out.png'' \<mapsto> ImageFile example_result))"
    using inst [THEN conjunct2, THEN conjunct2, THEN conjunct1] h r by simp
  have b: "embed_qr example_codec example_upload ''https://x'' float_0_25 ''bottom-right'' 10
       ''black'' ''white'' = StreamingResponse (PngImage example_result) ''image/png''"
    using inst [THEN conjunct2, THEN conjunct2, THEN conjunct2] h r by simp
  have c: "\<exists>q xy. py_int (float_mul (float_of_int 400) float_0_25) = Inr q
         \<and> calculate_position 400 300 q ''bottom-right'' 10 = Inr xy
         \<and> im_layers example_result = [Pasted q q (fst xy) (snd xy)]"
    using inst [THEN conjunct2, THEN conjunct1] b h by (simp add: example_background_def)
  have "\<exists>q xy res. py_int (float_mul (float_of_int 400) float_0_25) = Inr q
         \<and> calculate_position 400 300 q ''bottom-right'' 10 = Inr xy
         \<and> (example_fs(''out.png'' \<mapsto> ImageFile example_result)) ''out.png'' =
             Some (ImageFile res)
         \<and> im_layers res = [Pasted q q (fst xy) (snd xy)]"
    using inst [THEN conjunct1] a h by (simp add: example_background_def)
  with a b c show ?thesis by blast
qed

text \<open>
  C9. With the logo file present, a logo scale outside the closed interval from 0.1 to
  0.4 makes \<open>generate_qr_with_logo\<close> raise \<open>ValueError\<close>, whatever the other arguments.
  With the other inputs valid (the logo is an image, the data and the size pass
  validation, the codec and the save succeed) it raises \<open>ValueError\<close> exactly when the
  scale is outside the interval and returns the output path exactly when it is inside:
  0.05 and 0.41 fail, 0.1 and 0.4 succeed.
\<close>

theorem logo_scale_range:
  "(fs logo_path = Some f \<and> \<not> logo_scale_in_range s \<longrightarrow>
      fst (generate_qr_with_logo ev fs data logo_path outp sz s fc bc) =
        Inl (ValueError ''logo_scale should be between 0.1 and 0.4 for reliable scanning.''))
   \<and> (fs logo_path = Some (ImageFile logo) \<and> validate_data data = Inr ()
        \<and> validate_size sz = Inr () \<and> qr_codec ev data 4 fc bc = Inr raw
        \<and> (\<forall>img. save_error ev outp img = None) \<longrightarrow>
      ((\<exists>msg. fst (generate_qr_with_logo ev fs data logo_path outp sz s fc bc) =
            Inl (ValueError msg)) \<longleftrightarrow> \<not> logo_scale_in_range s)
      \<and> (fst (generate_qr_with_logo ev fs data logo_path outp sz s fc bc) = Inr outp
            \<longleftrightarrow> logo_scale_in_range s)
      \<and> (\<exists>msg. fst (generate_qr_with_logo ev fs data logo_path outp sz float_0_05 fc bc) =
            Inl (ValueError msg))
      \<and> fst (generate_qr_with_logo ev fs data logo_path outp sz float_0_1 fc bc) = Inr outp
      \<and> fst (generate_qr_with_logo ev fs data logo_path outp sz float_0_4 fc bc) = Inr outp
      \<and> (\<exists>msg. fst (generate_qr_with_logo ev fs data logo_path outp sz float_0_41 fc bc) =
            Inl (ValueError msg)))"
proof (intro conjI impI)
  assume "fs logo_path = Some f \<and> \<not> logo_scale_in_range s"
  then show "fst (generate_qr_with_logo ev fs data logo_path outp sz s fc bc) =
        Inl (ValueError ''logo_scale should be between 0.1 and 0.4 for reliable scanning.'')"
    by (simp add: generate_qr_with_logo_out_of_range)
next
  assume a: "fs logo_path = Some (ImageFile logo) \<and> validate_data data = Inr ()
        \<and> validate_size sz = Inr () \<and> qr_codec ev data 4 fc bc = Inr raw
        \<and> (\<forall>img. save_error ev outp img = None)"
  have inr: "fst (generate_qr_with_logo ev fs data logo_path outp sz t fc bc) = Inr outp"
    if "logo_scale_in_range t" for t
    using a that generate_qr_with_logo_in_range by blast
  have inl: "fst (generate_qr_with_logo ev fs data logo_path outp sz t fc bc) =
        Inl (ValueError ''logo_scale should be between 0.1 and 0.4 for reliable scanning.'')"
    if "\<not> logo_scale_in_range t" for t
    using a that by (simp add: generate_qr_with_logo_out_of_range)
  show "(\<exists>msg. fst (generate_qr_with_logo ev fs data logo_path outp sz s fc bc) =
            Inl (ValueError msg)) \<longleftrightarrow> \<not> logo_scale_in_range s"
    using inr [of s] inl [of s] by (cases "logo_scale_in_range s") auto
  show "fst (generate_qr_with_logo ev fs data logo_path outp sz s fc bc) = Inr outp
            \<longleftrightarrow> logo_scale_in_range s"
    using inr [of s] inl [of s] by (cases "logo_scale_in_range s") auto
  show "\<exists>msg. fst (generate_qr_with_logo ev fs data logo_path outp sz float_0_05 fc bc) =
            Inl (ValueError msg)"
    using inl [of float_0_05] logo_scale_literals by simp
  show "fst (generate_qr_with_logo ev fs data logo_path outp sz float_0_1 fc bc) = Inr outp"
    using inr [of float_0_1] logo_scale_literals by simp
  show "fst (generate_qr_with_logo ev fs data logo_path outp sz float_0_4 fc bc) = Inr outp"
    using inr [of float_0_4] logo_scale_literals by simp
  show "\<exists>msg. fst (generate_qr_with_logo ev fs data logo_path outp sz float_0_41 fc bc) =
            Inl (ValueError msg)"
    using inl [of float_0_41] logo_scale_literals by simp
qed

theorem logo_scale_range_witness:
  "fst (generate_qr_with_logo example_env example_fs ''https://x'' ''logo.png'' ''out.png'' 500
          float_0_05 ''black'' ''white'') =
     Inl (ValueError ''logo_scale should be between 0.1 and 0.4 for reliable scanning.'')
   \<and> fst (generate_qr_with_logo example_env example_fs ''https://x'' ''logo.png'' ''out.png''
          500 float_0_1 ''black'' ''white'') = Inr ''out.png''
   \<and> fst (generate_qr_with_logo example_env example_fs ''https://x'' ''logo.png'' ''out.png''
          500 float_0_4 ''black'' ''white'') = Inr ''out.png''
   \<and> (\<exists>msg. fst (generate_qr_with_logo example_env example_fs ''https://x'' ''logo.png''
          ''out.png'' 500 float_0_41 ''black'' ''white'') = Inl (ValueError msg))"
proof -
  note inst = logo_scale_range
    [where fs = example_fs and logo_path = "''logo.png''" and f = "ImageFile example_logo"
       and s = float_0_05 and ev = example_env and data = "''https://x''"
       and outp = "''out.png''" and sz = 500 and fc = "''black''" and bc = "''white''"
       and logo = example_logo and raw = example_qr]
  have h: "example_fs ''logo.png'' = Some (ImageFile example_logo)"
    "validate_size 500 = Inr ()"
    "qr_codec example_env ''https://x'' 4 ''black'' ''white'' = Inr example_qr"
    "\<forall>img. save_error example_env ''out.png'' img = None"
    by (simp_all add: example_fs_def validate_size_def MIN_QR_SIZE_def MAX_QR_SIZE_def
        example_env_def example_codec_def)
  have a: "fst (generate_qr_with_logo example_env example_fs ''https://x'' ''logo.png''
          ''out.png'' 500 float_0_05 ''black'' ''white'') =
     Inl (ValueError ''logo_scale should be between 0.1 and 0.4 for reliable scanning.'')"
    using inst [THEN conjunct1] h(1) logo_scale_literals(1) by simp
  have b: "fst (generate_qr_with_logo example_env example_fs ''https://x'' ''logo.png''
          ''out.png'' 500 float_0_1 ''black'' ''white'') = Inr ''out.png''"
    "fst (generate_qr_with_logo example_env example_fs ''https://x'' ''logo.png''
          ''out.png'' 500 float_0_4 ''black'' ''white'') = Inr ''out.png''"
    "\<exists>msg. fst (generate_qr_with_logo example_env example_fs ''https://x'' ''logo.png''
          ''out.png'' 500 float_0_41 ''black'' ''white'') = Inl (ValueError msg)"
    using inst [THEN conjunct2] h validate_data_https by simp_all
  from a b show ?thesis by blast
qed

text \<open>
  The whole result at the upper bound: a logo of 200 pixels at (150, 150), on a box from
  (140, 140) to (360, 360) in the background colour.
\<close>

lemma generate_qr_with_logo_example:
  "generate_qr_with_logo example_env example_fs ''https://x'' ''logo.png'' ''out.png'' 500
     float_0_4 ''black'' ''white'' =
   (Inr ''out.png'',
    example_fs(''out.png'' \<mapsto> ImageFile
      \<lparr>im_width = 500, im_height = 500, im_mode = ''RGBA'',
       im_layers = [Rectangle 140 140 360 360 ''white'', Pasted 200 200 150 150]\<rparr>))"
proof -
  have q: "py_int (float_mul (float_of_int 500) float_0_4) = Inr 200"
    by (simp add: float_mul_def float_of_int_def round_to_double_def py_int_def Let_def
        excess_bits_small excess_bits_large float_0_4_def)
  have g: "generate_qr example_codec ''https://x'' 500 4 ''black'' ''white'' =
      Inr \<lparr>im_width = 500, im_height = 500, im_mode = ''RGBA'', im_layers = []\<rparr>"
    by (simp add: generate_qr_Inr_iff validate_data_https validate_size_def MIN_QR_SIZE_def
        MAX_QR_SIZE_def example_codec_def example_qr_def pil_resize_def pil_convert_def)
  have r: "logo_scale_in_range float_0_4"
    by (rule logo_scale_literals)
  show ?thesis
    using r
    by (simp add: generate_qr_with_logo_def logo_scale_in_range_def example_fs_def
        example_env_def g q image_open_def example_logo_def pil_resize_def pil_convert_def
        pil_paste_def pil_rectangle_def)
qed

section \<open>Claims about batch processing\<close>

lemma batch_embed_loop_all_ok:
  assumes "\<forall>u \<in> set ups. \<exists>en. batch_embed_item codec data s position margin fc bc u = Inr en"
  shows "batch_embed_loop codec data s position margin fc bc zf ups =
     Inr (zf @ map (\<lambda>u. projr (batch_embed_item codec data s position margin fc bc u)) ups)"
  using assms
proof (induction ups arbitrary: zf)
  case Nil
  then show ?case by simp
next
  case (Cons u ups)
  then obtain en where en: "batch_embed_item codec data s position margin fc bc u = Inr en"
    by auto
  have "batch_embed_loop codec data s position margin fc bc (zf @ [en]) ups =
     Inr ((zf @ [en]) @
       map (\<lambda>u. projr (batch_embed_item codec data s position margin fc bc u)) ups)"
    using Cons.IH Cons.prems by simp
  then show ?case
    by (simp add: en)
qed

lemma batch_embed_loop_first_failure:
  assumes "\<forall>u \<in> set pre. \<exists>en. batch_embed_item codec data s position margin fc bc u = Inr en"
    and "batch_embed_item codec data s position margin fc bc bad = Inl e"
  shows "batch_embed_loop codec data s position margin fc bc zf (pre @ bad # post) = Inl e"
  using assms
proof (induction pre arbitrary: zf)
  case Nil
  then show ?case by simp
next
  case (Cons u pre)
  then obtain en where en: "batch_embed_item codec data s position margin fc bc u = Inr en"
    by auto
  show ?case
    using Cons.IH [of "zf @ [en]"] Cons.prems by (simp add: en)
qed

lemma batch_embed_item_name:
  "batch_embed_item codec data s position margin fc bc u = Inr en \<Longrightarrow>
     fst en = batch_out_name (filename u)"
  by (auto simp: batch_embed_item_def image_open_def pil_convert_def Let_def
      split: sum.splits stored.splits if_splits)

lemma batch_embed_names:
  assumes "\<forall>u \<in> set ups. \<exists>en. batch_embed_item codec data s position margin fc bc u = Inr en"
  shows "map fst (map (\<lambda>u. projr (batch_embed_item codec data s position margin fc bc u)) ups)
     = map (\<lambda>u. batch_out_name (filename u)) ups"
  using assms
proof (induction ups)
  case Nil
  show ?case by simp
next
  case (Cons u ups)
  then obtain en where en: "batch_embed_item codec data s position margin fc bc u = Inr en"
    by auto
  have "fst en = batch_out_name (filename u)"
    using en by (rule batch_embed_item_name)
  then show ?case using Cons en by simp
qed

lemma batch_embed_qr_all_ok:
  assumes "\<forall>u \<in> set ups. \<exists>en. batch_embed_item codec data s position margin fc bc u = Inr en"
  shows "batch_embed_qr codec ups data s position margin fc bc =
      StreamingResponse
        (ZipArchive (map (\<lambda>u. projr (batch_embed_item codec data s position margin fc bc u)) ups))
        ''application/zip''"
proof -
  have "batch_embed_loop codec data s position margin fc bc [] ups =
     Inr ([] @ map (\<lambda>u. projr (batch_embed_item codec data s position margin fc bc u)) ups)"
    using assms by (rule batch_embed_loop_all_ok)
  then show ?thesis
    by (simp add: batch_embed_qr_def)
qed

lemma batch_embed_qr_some_failure:
  assumes "\<exists>u \<in> set ups. \<exists>e. batch_embed_item codec data s position margin fc bc u = Inl e"
  shows "\<exists>status detail. batch_embed_qr codec ups data s position margin fc bc =
          HTTPException status detail"
proof -
  let ?item = "batch_embed_item codec data s position margin fc bc"
  let ?P = "\<lambda>u. \<exists>e. ?item u = Inl e"
  from assms have "\<exists>u \<in> set ups. ?P u" .
  then obtain pre bad post where split: "ups = pre @ bad # post"
    and bad: "?P bad" and pre: "\<forall>u \<in> set pre. \<not> ?P u"
    by (rule split_list_first_propE)
  from bad obtain e where e: "?item bad = Inl e" by blast
  have "\<forall>u \<in> set pre. \<exists>en. ?item u = Inr en"
  proof
    fix u assume "u \<in> set pre"
    then have "\<not> (\<exists>e. ?item u = Inl e)" using pre by blast
    then show "\<exists>en. ?item u = Inr en" by (cases "?item u") auto
  qed
  then have "batch_embed_loop codec data s position margin fc bc [] ups = Inl e"
    unfolding split using e by (rule batch_embed_loop_first_failure)
  then show ?thesis
    by (simp add: batch_embed_qr_def)
qed

lemma batch_embed_item_scenario:
  assumes "content up = ImageFile bg" "im_width bg = 400" "im_height bg = 300"
    and "codec ''https://x'' 4 fc bc = Inr raw"
  shows "batch_embed_item codec ''https://x'' float_0_25 ''bottom-right'' 10 fc bc up =
     Inr (batch_out_name (filename up),
          bg\<lparr>im_mode := ''RGBA'', im_layers := im_layers bg @ [Pasted 100 100 290 190]\<rparr>)"
  using assms scale_quarter_ok
  by (simp add: batch_embed_item_def image_open_def pil_convert_def int_400_quarter
      generate_qr_https_100 position_bottom_right_400_300 pil_paste_def pil_resize_def)

text \<open>
  C6. The handler of \<^verbatim>\<open>/batch/embed\<close> works through the uploads in the order received.
  When every upload can be processed, the archive holds one entry per upload, in input
  order, each under the name derived from its upload. When an upload fails, the response is
  the error of the first upload that fails, status 400 for a \<open>ValueError\<close> and 500
  otherwise, and no archive is returned, whatever was processed before.
\<close>

theorem batch_embed_all_or_nothing:
  "((\<forall>u \<in> set ups. \<exists>en. batch_embed_item codec data s position margin fc bc u = Inr en) \<longrightarrow>
      batch_embed_qr codec ups data s position margin fc bc =
        StreamingResponse
          (ZipArchive
            (map (\<lambda>u. projr (batch_embed_item codec data s position margin fc bc u)) ups))
          ''application/zip''
      \<and> map fst (map (\<lambda>u. projr (batch_embed_item codec data s position margin fc bc u)) ups)
          = map (\<lambda>u. batch_out_name (filename u)) ups)
   \<and> ((\<forall>u \<in> set pre. \<exists>en. batch_embed_item codec data s position margin fc bc u = Inr en)
        \<and> batch_embed_item codec data s position margin fc bc bad = Inl e \<longrightarrow>
      batch_embed_qr codec (pre @ bad # post) data s position margin fc bc =
        (if is_value_error e then HTTPException 400 (exc_str e)
         else HTTPException 500 ''Internal server error''))
   \<and> ((\<exists>u \<in> set ups. \<exists>e. batch_embed_item codec data s position margin fc bc u = Inl e) \<longrightarrow>
      (\<exists>status detail. batch_embed_qr codec ups data s position margin fc bc =
          HTTPException status detail))"
proof (intro conjI impI)
  assume "\<forall>u \<in> set ups. \<exists>en. batch_embed_item codec data s position margin fc bc u = Inr en"
  then show "batch_embed_qr codec ups data s position margin fc bc =
        StreamingResponse
          (ZipArchive
            (map (\<lambda>u. projr (batch_embed_item codec data s position margin fc bc u)) ups))
          ''application/zip''"
    and "map fst (map (\<lambda>u. projr (batch_embed_item codec data s position margin fc bc u)) ups)
          = map (\<lambda>u. batch_out_name (filename u)) ups"
    by (rule batch_embed_qr_all_ok, rule batch_embed_names)
next
  assume "(\<forall>u \<in> set pre. \<exists>en. batch_embed_item codec data s position margin fc bc u = Inr en)
        \<and> batch_embed_item codec data s position margin fc bc bad = Inl e"
  then have "batch_embed_loop codec data s position margin fc bc [] (pre @ bad # post) = Inl e"
    using batch_embed_loop_first_failure by blast
  then show "batch_embed_qr codec (pre @ bad # post) data s position margin fc bc =
        (if is_value_error e then HTTPException 400 (exc_str e)
         else HTTPException 500 ''Internal server error'')"
    by (simp add: batch_embed_qr_def)
next
  assume "\<exists>u \<in> set ups. \<exists>e. batch_embed_item codec data s position margin fc bc u = Inl e"
  then show "\<exists>status detail. batch_embed_qr codec ups data s position margin fc bc =
          HTTPException status detail"
    by (rule batch_embed_qr_some_failure)
qed

theorem batch_embed_all_or_nothing_witness:
  "batch_embed_qr example_codec [example_upload, example_unnamed_upload] ''https://x''
       float_0_25 ''bottom-right'' 10 ''black'' ''white'' =
     StreamingResponse
       (ZipArchive [(''photo_qr.png'', example_result), (''image_qr.png'', example_result)])
       ''application/zip''
   \<and> batch_embed_qr example_codec
       [example_upload, example_broken_upload, example_unnamed_upload] ''https://x''
       float_0_25 ''bottom-right'' 10 ''black'' ''white'' =
     HTTPException 500 ''Internal server error''
   \<and> (\<exists>status detail. batch_embed_qr example_codec [example_broken_upload] ''https://x''
       float_0_25 ''bottom-right'' 10 ''black'' ''white'' = HTTPException status detail)"
proof -
  let ?item = "batch_embed_item example_codec ''https://x'' float_0_25 ''bottom-right'' 10
    ''black'' ''white''"
  have c: "example_codec ''https://x'' 4 ''black'' ''white'' = Inr example_qr"
    by (simp add: example_codec_def)
  have r: "example_background\<lparr>im_mode := ''RGBA'',
      im_layers := im_layers example_background @ [Pasted 100 100 290 190]\<rparr> = example_result"
    by (simp add: example_background_def example_result_def)
  have bg: "im_width example_background = 400" "im_height example_background = 300"
    by (simp_all add: example_background_def)
  have i1: "?item example_upload = Inr (''photo_qr.png'', example_result)"
    using batch_embed_item_scenario [of example_upload example_background example_codec
        "''black''" "''white''" example_qr] c bg r
    by (simp add: example_upload_def batch_out_name_def rsplit_dot_base_def)
  have i2: "?item example_unnamed_upload = Inr (''image_qr.png'', example_result)"
    using batch_embed_item_scenario [of example_unnamed_upload example_background
        example_codec "''black''" "''white''" example_qr] c bg r
    by (simp add: example_unnamed_upload_def batch_out_name_def rsplit_dot_base_def)
  have i3: "?item example_broken_upload =
      Inl (OtherException ''UnidentifiedImageError'' ''cannot identify image file'')"
    by (simp add: batch_embed_item_def example_broken_upload_def image_open_def)
  have a: "batch_embed_qr example_codec [example_upload, example_unnamed_upload] ''https://x''
       float_0_25 ''bottom-right'' 10 ''black'' ''white'' =
     StreamingResponse
       (ZipArchive [(''photo_qr.png'', example_result), (''image_qr.png'', example_result)])
       ''application/zip''"
    using batch_embed_all_or_nothing
      [where ups = "[example_upload, example_unnamed_upload]" and codec = example_codec
         and data = "''https://x''" and s = float_0_25 and position = "''bottom-right''"
         and margin = 10 and fc = "''black''" and bc = "''white''", THEN conjunct1]
      i1 i2
    by simp
  have b: "batch_embed_qr example_codec
       [example_upload, example_broken_upload, example_unnamed_upload] ''https://x''
       float_0_25 ''bottom-right'' 10 ''black'' ''white'' =
     HTTPException 500 ''Internal server error''"
    using batch_embed_all_or_nothing
      [where pre = "[example_upload]" and bad = example_broken_upload
         and post = "[example_unnamed_upload]" and codec = example_codec
         and e = "OtherException ''UnidentifiedImageError'' ''cannot identify image file''"
         and data = "''https://x''" and s = float_0_25 and position = "''bottom-right''"
         and margin = 10 and fc = "''black''" and bc = "''white''",
         THEN conjunct2, THEN conjunct1]
      i1 i3
    by simp
  have d: "\<exists>status detail. batch_embed_qr example_codec [example_broken_upload] ''https://x''
       float_0_25 ''bottom-right'' 10 ''black'' ''white'' = HTTPException status detail"
    using batch_embed_all_or_nothing
      [where ups = "[example_broken_upload]" and codec = example_codec
         and data = "''https://x''" and s = float_0_25 and position = "''bottom-right''"
         and margin = 10 and fc = "''black''" and bc = "''white''",
         THEN conjunct2, THEN conjunct2]
      i3
    by simp
  from a b d show ?thesis by blast
qed

section \<open>Facts about output names and the command-line loop\<close>




















section \<open>Claims about output names\<close>




section \<open>Claims about the HTTP surface\<close>

text \<open>
  The handler of \<^verbatim>\<open>/qr\<close> answers every failure of the renderer with status 400; the
  handler of \<^verbatim>\<open>/embed\<close> answers a \<open>ValueError\<close> with 400 and its message and any other
  exception with 500.
\<close>

lemma create_qr_failure:
  "generate_qr codec data sz 4 fc bc = Inl e \<Longrightarrow>
     create_qr codec data sz fc bc = HTTPException 400 (exc_str e)"
  by (simp add: create_qr_def)

lemma embed_qr_failure:
  "embed_qr_try codec up data s position margin fc bc = Inl e \<Longrightarrow>
     embed_qr codec up data s position margin fc bc =
       (if is_value_error e then HTTPException 400 (exc_str e)
        else HTTPException 500 ''Internal server error'')"
  by (simp add: embed_qr_def)

lemma generate_qr_overflowing_colour:
  "21 \<le> sz \<Longrightarrow> sz \<le> 4000 \<Longrightarrow>
   generate_qr example_codec ''https://x'' sz 4 ''black'' ''rgb(0,99999999999,0)'' =
     Inl (OtherException ''OverflowError'' ''signed integer is greater than maximum'')"
  by (simp add: generate_qr_def validate_data_https validate_size_def MIN_QR_SIZE_def
      MAX_QR_SIZE_def example_codec_def)

text \<open>
  C3. An exception that is not an input-validation failure is to give status 500 on every
  route, on \<^verbatim>\<open>/qr\<close> in particular. The handler of \<^verbatim>\<open>/qr\<close> answers every exception
  of the renderer, of whatever class, with status 400 and its message, and never with 500;
  the handler of \<^verbatim>\<open>/embed\<close> answers 500 to an exception that is not a \<open>ValueError\<close>.
\<close>

theorem create_qr_failure_status:
  "(generate_qr codec data sz 4 fc bc = Inl e \<longrightarrow>
      create_qr codec data sz fc bc = HTTPException 400 (exc_str e))
   \<and> create_qr codec data sz fc bc \<noteq> HTTPException 500 detail
   \<and> (embed_qr_try codec up data s position margin fc bc = Inl e \<and> \<not> is_value_error e \<longrightarrow>
      embed_qr codec up data s position margin fc bc =
        HTTPException 500 ''Internal server error'')"
proof (intro conjI impI)
  assume "generate_qr codec data sz 4 fc bc = Inl e"
  then show "create_qr codec data sz fc bc = HTTPException 400 (exc_str e)"
    by (rule create_qr_failure)
next
  show "create_qr codec data sz fc bc \<noteq> HTTPException 500 detail"
    by (simp add: create_qr_def split: sum.splits)
next
  assume "embed_qr_try codec up data s position margin fc bc = Inl e \<and> \<not> is_value_error e"
  then show "embed_qr codec up data s position margin fc bc =
        HTTPException 500 ''Internal server error''"
    by (simp add: embed_qr_failure)
qed

text \<open>
  The same request on both routes, with the background colour
  \<^verbatim>\<open>rgb(0,99999999999,0)\<close>: the renderer raises \<^verbatim>\<open>OverflowError\<close>; \<^verbatim>\<open>/qr\<close>
  answers 400 with its message, \<^verbatim>\<open>/embed\<close> answers 500.
\<close>

theorem create_qr_failure_status_witness:
  "create_qr example_codec ''https://x'' 500 ''black'' ''rgb(0,99999999999,0)'' =
     HTTPException 400 ''signed integer is greater than maximum''
   \<and> embed_qr example_codec example_upload ''https://x'' float_0_25 ''bottom-right'' 10
       ''black'' ''rgb(0,99999999999,0)'' = HTTPException 500 ''Internal server error''"
proof -
  let ?e = "OtherException ''OverflowError'' ''signed integer is greater than maximum''"
  note inst = create_qr_failure_status
    [where codec = example_codec and data = "''https://x''" and sz = 500
       and fc = "''black''" and bc = "''rgb(0,99999999999,0)''" and e = ?e
       and up = example_upload and s = float_0_25 and position = "''bottom-right''"
       and margin = 10]
  have g: "generate_qr example_codec ''https://x'' 500 4 ''black'' ''rgb(0,99999999999,0)'' =
      Inl ?e"
    by (simp add: generate_qr_overflowing_colour)
  have a: "create_qr example_codec ''https://x'' 500 ''black'' ''rgb(0,99999999999,0)'' =
     HTTPException 400 ''signed integer is greater than maximum''"
    using inst [THEN conjunct1] g by simp
  have t: "embed_qr_try example_codec example_upload ''https://x'' float_0_25 ''bottom-right''
       10 ''black'' ''rgb(0,99999999999,0)'' = Inl ?e"
    using scale_quarter_ok
    by (simp add: embed_qr_try_def example_upload_def image_open_def pil_convert_def
        example_background_def int_400_quarter generate_qr_overflowing_colour)
  have b: "embed_qr example_codec example_upload ''https://x'' float_0_25 ''bottom-right'' 10
       ''black'' ''rgb(0,99999999999,0)'' = HTTPException 500 ''Internal server error''"
    using inst [THEN conjunct2, THEN conjunct2] t by simp
  from a b show ?thesis by blast
qed

section \<open>Claims about module loading\<close>

lemma cli_imports_load: "import_from core_names cli_core_imports = Inr ()"
  by (simp add: core_names_def cli_core_imports_def)

text \<open>
  C10. Every name that \<^verbatim>\<open>api.py\<close> imports from the core module is to be defined there.
  Four of the eight are not: \<^verbatim>\<open>generate_qr_with_text\<close>, \<^verbatim>\<open>generate_qart\<close>,
  \<^verbatim>\<open>QRStyle\<close> and \<^verbatim>\<open>ARTISTIC_PRESETS\<close>. The import statement raises
  \<^verbatim>\<open>ImportError\<close> at the first of them, so the module does not load.
\<close>

theorem api_imports_fail:
  "import_from core_names api_core_imports =
     Inl (ImportError (''cannot import name '' @ [CHR 0x27] @ ''generate_qr_with_text'' @
       [CHR 0x27] @ '' from '' @ [CHR 0x27] @ ''qr_builder.core'' @ [CHR 0x27]))
   \<and> filter (\<lambda>n. n \<notin> set core_names) api_core_imports =
     [''generate_qr_with_text'', ''generate_qart'', ''QRStyle'', ''ARTISTIC_PRESETS'']"
  by (simp add: core_names_def api_core_imports_def)

end
